theory Spec2Isabelle
  imports Complex_Main "HOL-Library.Multiset" "HOL-Library.Char_ord" "HOL-Library.List_Lexorder"
begin

section \<open>Session records (models/training_session.py)\<close>

text \<open>
  A timestamp is a point on a linear time axis; the model only compares timestamps.
  The fields of \<open>TrainingSession\<close> are typed as the constructor annotates them;
  \<open>position\<close> is a string or Python's \<open>None\<close>.
\<close>

type_synonym timestamp = int

record training_session =
  date :: timestamp
  session_type :: string
  duration_mins :: int
  position :: "string option"
  goals :: int
  assists :: int
  tackles :: int
  passes_completed :: int
  crosses :: int
  shots_on_target :: int
  rating :: int
  comments :: string

text \<open>
  A row of the table \<open>training_sessions\<close>: the twelve inserted columns, the
  \<open>SERIAL\<close> primary key \<open>id\<close> and \<open>created_at\<close>.
\<close>

record session_row = training_session +
  row_id :: int
  created_at :: timestamp

definition mk_row :: "int \<Rightarrow> timestamp \<Rightarrow> training_session \<Rightarrow> session_row" where
  "mk_row i t v =
     \<lparr>date = date v, session_type = session_type v, duration_mins = duration_mins v,
      position = position v, goals = goals v, assists = assists v, tackles = tackles v,
      passes_completed = passes_completed v, crosses = crosses v,
      shots_on_target = shots_on_target v, rating = rating v, comments = comments v,
      row_id = i, created_at = t\<rparr>"

definition row_values :: "session_row \<Rightarrow> training_session" where
  "row_values r =
     \<lparr>date = date r, session_type = session_type r, duration_mins = duration_mins r,
      position = position r, goals = goals r, assists = assists r, tackles = tackles r,
      passes_completed = passes_completed r, crosses = crosses r,
      shots_on_target = shots_on_target r, rating = rating r, comments = comments r\<rparr>"

text \<open>The columns of the constraint \<open>UNIQUE(date, session_type)\<close>.\<close>

definition session_key :: "'a training_session_scheme \<Rightarrow> timestamp \<times> string" where
  "session_key r = (date r, session_type r)"

section \<open>The backing store (utils/data_handler.py)\<close>

subsection \<open>What the user is shown\<close>

text \<open>
  The functions report through Streamlit calls and \<open>print\<close>. Message texts are
  the source's, as UTF-8 bytes: the cross mark and the check mark are three bytes each.
\<close>

datatype ui_msg = St_error string | St_success string | St_warning string | Printed string

definition cross_mark :: string where
  "cross_mark = [CHR 0xE2, CHR 0x9D, CHR 0x8C]"

definition check_mark :: string where
  "check_mark = [CHR 0xE2, CHR 0x9C, CHR 0x85]"

subsection \<open>The database and its environment\<close>

text \<open>
  The table holds its rows in insertion order and the next value of the \<open>id\<close>
  sequence. The database is \<open>None\<close> while the relation does not exist.
\<close>

record table =
  rows :: "session_row list"
  next_id :: int

type_synonym database = "table option"

text \<open>
  Each call meets the backend in one of three conditions: \<open>psycopg2.connect\<close> raises,
  the connection opens but the statement raises, or the backend serves the statement,
  with \<open>NOW()\<close> reading the given clock. The strings are the exception texts.
\<close>

datatype backend = Unreachable string | Stmt_fails string | Up timestamp

datatype connection = Faulty string | Live timestamp

datatype exn = Exn string

record 'a outcome =
  db_after :: database
  shown :: "ui_msg list"
  returned :: 'a

definition get_connection :: "backend \<Rightarrow> connection option \<times> ui_msg list" where
  "get_connection b =
     (case b of
        Unreachable e \<Rightarrow> (None, [St_error (cross_mark @ '' DB connection failed: '' @ e)])
      | Stmt_fails e \<Rightarrow> (Some (Faulty e), [])
      | Up t \<Rightarrow> (Some (Live t), []))"

subsection \<open>The four SQL statements\<close>

text \<open>
  A statement on a relation that does not exist raises; the text stands for the
  driver's \<open>UndefinedTable\<close> message.
\<close>

definition undefined_table :: string where
  "undefined_table = ''relation training_sessions does not exist''"

text \<open>\<open>CREATE TABLE IF NOT EXISTS\<close>: a fresh sequence starts at 1.\<close>

definition exec_create :: "connection \<Rightarrow> database \<Rightarrow> exn + database" where
  "exec_create c db =
     (case c of
        Faulty e \<Rightarrow> Inl (Exn e)
      | Live t \<Rightarrow>
          (case db of
             None \<Rightarrow> Inr (Some \<lparr>rows = [], next_id = 1\<rparr>)
           | Some tb \<Rightarrow> Inr (Some tb)))"

text \<open>
  \<open>INSERT ... ON CONFLICT (date, session_type) DO NOTHING\<close>, returning the
  cursor's \<open>rowcount\<close> and the table as the open transaction sees it. The default of
  \<open>id\<close> is drawn from the sequence before the conflict is detected, so the sequence
  advances either way.
\<close>

definition exec_insert ::
  "connection \<Rightarrow> training_session \<Rightarrow> database \<Rightarrow> exn + (nat \<times> database)" where
  "exec_insert c v db =
     (case c of
        Faulty e \<Rightarrow> Inl (Exn e)
      | Live t \<Rightarrow>
          (case db of
             None \<Rightarrow> Inl (Exn undefined_table)
           | Some tb \<Rightarrow>
               if session_key v \<in> session_key ` set (rows tb)
               then Inr (0, Some (tb\<lparr>next_id := next_id tb + 1\<rparr>))
               else Inr (1, Some \<lparr>rows = rows tb @ [mk_row (next_id tb) t v],
                                  next_id = next_id tb + 1\<rparr>)))"

text \<open>
  \<open>SELECT * ... ORDER BY date DESC\<close>. SQL leaves the order among equal dates open;
  the model keeps insertion order there (a stable sort), and the theorems below use only
  that the result is ordered by date and holds the same rows.
\<close>

definition exec_select :: "connection \<Rightarrow> database \<Rightarrow> exn + session_row list" where
  "exec_select c db =
     (case c of
        Faulty e \<Rightarrow> Inl (Exn e)
      | Live t \<Rightarrow>
          (case db of
             None \<Rightarrow> Inl (Exn undefined_table)
           | Some tb \<Rightarrow> Inr (sort_key (\<lambda>r. - date r) (rows tb))))"

text \<open>\<open>DELETE ... WHERE id = %s\<close>, returning \<open>rowcount\<close> and the table.\<close>

definition exec_delete :: "connection \<Rightarrow> int \<Rightarrow> database \<Rightarrow> exn + (nat \<times> database)" where
  "exec_delete c session_id db =
     (case c of
        Faulty e \<Rightarrow> Inl (Exn e)
      | Live t \<Rightarrow>
          (case db of
             None \<Rightarrow> Inl (Exn undefined_table)
           | Some tb \<Rightarrow>
               Inr (length (filter (\<lambda>r. row_id r = session_id) (rows tb)),
                    Some (tb\<lparr>rows := filter (\<lambda>r. row_id r \<noteq> session_id) (rows tb)\<rparr>))))"

text \<open>
  \<open>conn.close()\<close> without a commit discards the transaction's row changes; sequence
  values already drawn are not given back.
\<close>

definition close_uncommitted :: "database \<Rightarrow> database \<Rightarrow> database" where
  "close_uncommitted committed pending =
     (case (committed, pending) of
        (Some tb, Some tb') \<Rightarrow> Some (tb\<lparr>next_id := next_id tb'\<rparr>)
      | _ \<Rightarrow> committed)"

subsection \<open>The four operations\<close>

text \<open>
  Every operation is a Python function and may raise: its result is an exception or an
  outcome (the database afterwards, the messages shown in order, the value returned).
  \<open>create_table\<close> has no handler around its statement; the other three catch
  every exception of theirs.
\<close>

definition create_table :: "backend \<Rightarrow> database \<Rightarrow> exn + unit outcome" where
  "create_table b db =
     (case get_connection b of
        (None, msgs) \<Rightarrow> Inr \<lparr>db_after = db, shown = msgs, returned = ()\<rparr>
      | (Some conn, msgs) \<Rightarrow>
          (case exec_create conn db of
             Inl e \<Rightarrow> Inl e
           | Inr db' \<Rightarrow>
               Inr \<lparr>db_after = db',
                    shown = msgs @ [Printed (check_mark @ '' Table created or already exists.'')],
                    returned = ()\<rparr>))"

text \<open>
  The tuple \<open>values\<close> bound to the statement: the session's fields, with the
  position string \<open>"None"\<close> replaced by SQL \<open>NULL\<close>.
\<close>

definition insert_values :: "training_session \<Rightarrow> training_session" where
  "insert_values session =
     session\<lparr>position :=
       (if position session \<noteq> Some ''None'' then position session else None)\<rparr>"

definition save_training_session ::
  "backend \<Rightarrow> training_session \<Rightarrow> database \<Rightarrow> exn + unit outcome" where
  "save_training_session b session db =
     (case get_connection b of
        (None, msgs) \<Rightarrow> Inr \<lparr>db_after = db, shown = msgs, returned = ()\<rparr>
      | (Some conn, msgs) \<Rightarrow>
          (case exec_insert conn (insert_values session) db of
             Inr (rowcount, db') \<Rightarrow>
               if rowcount = 0
               then Inr \<lparr>db_after = close_uncommitted db db',
                         shown = msgs @ [St_error (cross_mark @
                           '' Session already exists for this date and type.'')],
                         returned = ()\<rparr>
               else Inr \<lparr>db_after = db',
                         shown = msgs @ [St_success (check_mark @
                           '' Session saved successfully.'')],
                         returned = ()\<rparr>
           | Inl (Exn e) \<Rightarrow>
               Inr \<lparr>db_after = db,
                    shown = msgs @ [St_error (cross_mark @ '' Error saving session: '' @ e)],
                    returned = ()\<rparr>))"

definition fetch_all_sessions :: "backend \<Rightarrow> database \<Rightarrow> exn + session_row list outcome" where
  "fetch_all_sessions b db =
     (case get_connection b of
        (None, msgs) \<Rightarrow> Inr \<lparr>db_after = db, shown = msgs, returned = []\<rparr>
      | (Some conn, msgs) \<Rightarrow>
          (case exec_select conn db of
             Inr fetched \<Rightarrow> Inr \<lparr>db_after = db, shown = msgs, returned = fetched\<rparr>
           | Inl (Exn e) \<Rightarrow>
               Inr \<lparr>db_after = db,
                    shown = msgs @ [St_error (cross_mark @ '' Error fetching data: '' @ e)],
                    returned = []\<rparr>))"

definition delete_session :: "backend \<Rightarrow> int \<Rightarrow> database \<Rightarrow> exn + bool outcome" where
  "delete_session b session_id db =
     (case get_connection b of
        (None, msgs) \<Rightarrow> Inr \<lparr>db_after = db, shown = msgs, returned = False\<rparr>
      | (Some conn, msgs) \<Rightarrow>
          (case exec_delete conn session_id db of
             Inr (rowcount, db') \<Rightarrow>
               if rowcount > 0
               then Inr \<lparr>db_after = db', shown = msgs, returned = True\<rparr>
               else Inr \<lparr>db_after = db', shown = msgs @ [St_warning ''Session not found.''],
                         returned = False\<rparr>
           | Inl (Exn e) \<Rightarrow>
               Inr \<lparr>db_after = db,
                    shown = msgs @ [St_error (cross_mark @ '' Error deleting session: '' @ e)],
                    returned = False\<rparr>))"

text \<open>The rows a database holds; none while the relation does not exist.\<close>

definition stored_rows :: "database \<Rightarrow> session_row list" where
  "stored_rows db = (case db of None \<Rightarrow> [] | Some tb \<Rightarrow> rows tb)"

section \<open>The input form (utils/form_builder.py)\<close>

text \<open>
  The state of the form's widgets when the script runs: what each widget call returns.
  The date picker's default only presets \<open>w_date\<close>. The six counting widgets are
  created only when the session type is not Physical Training.
\<close>

record widgets =
  w_date :: timestamp
  w_session_type :: string
  w_duration_mins :: int
  w_position :: string
  w_goals :: int
  w_assists :: int
  w_tackles :: int
  w_passes_completed :: int
  w_crosses :: int
  w_shots_on_target :: int
  w_rating :: int
  w_comments :: string
  w_save_clicked :: bool

text \<open>The dictionary \<open>form_data\<close>.\<close>

record form_data =
  fd_date :: timestamp
  fd_session_type :: string
  fd_duration_mins :: int
  fd_position :: string
  fd_goals :: int
  fd_assists :: int
  fd_tackles :: int
  fd_passes_completed :: int
  fd_crosses :: int
  fd_shots_on_target :: int
  fd_rating :: int
  fd_comments :: string

definition training_form :: "widgets \<Rightarrow> form_data option \<times> ui_msg list" where
  "training_form w =
     (let (goals, assists, tackles, passes_completed, crosses, shots_on_target) =
            (if w_session_type w \<noteq> ''Physical Training''
             then (w_goals w, w_assists w, w_tackles w, w_passes_completed w,
                   w_crosses w, w_shots_on_target w)
             else (0, 0, 0, 0, 0, 0))
      in if w_save_clicked w
         then (Some \<lparr>fd_date = w_date w, fd_session_type = w_session_type w,
                      fd_duration_mins = w_duration_mins w, fd_position = w_position w,
                      fd_goals = goals, fd_assists = assists, fd_tackles = tackles,
                      fd_passes_completed = passes_completed, fd_crosses = crosses,
                      fd_shots_on_target = shots_on_target, fd_rating = w_rating w,
                      fd_comments = w_comments w\<rparr>,
               [St_success (''Training Session Saved Successfully! '' @ check_mark)])
         else (None, []))"

section \<open>The application (app.py)\<close>

text \<open>
  Tab 1: the form, then the \<open>TrainingSession\<close> built from the dictionary, the save
  and the closing message.
\<close>

definition build_training_session :: "form_data \<Rightarrow> training_session" where
  "build_training_session fd =
     (let position_value =
            (if fd_position fd \<noteq> ''None (Bench/Fitness Only)''
             then Some (fd_position fd) else None)
      in \<lparr>date = fd_date fd, session_type = fd_session_type fd,
          duration_mins = fd_duration_mins fd, position = position_value,
          goals = fd_goals fd, assists = fd_assists fd, tackles = fd_tackles fd,
          passes_completed = fd_passes_completed fd, crosses = fd_crosses fd,
          shots_on_target = fd_shots_on_target fd, rating = fd_rating fd,
          comments = fd_comments fd\<rparr>)"

definition tab1_add_session :: "backend \<Rightarrow> widgets \<Rightarrow> database \<Rightarrow> exn + unit outcome" where
  "tab1_add_session b w db =
     (case training_form w of
        (None, msgs) \<Rightarrow> Inr \<lparr>db_after = db, shown = msgs, returned = ()\<rparr>
      | (Some fd, msgs) \<Rightarrow>
          (case save_training_session b (build_training_session fd) db of
             Inl e \<Rightarrow> Inl e
           | Inr out \<Rightarrow>
               Inr \<lparr>db_after = db_after out,
                    shown = msgs @ shown out @
                      [St_success (check_mark @ '' Training Session Saved Successfully!'')],
                    returned = ()\<rparr>))"

text \<open>
  The calls that change the store, and the database after a sequence of them, each under
  its own backend condition. A call that raises leaves the database as it was.
\<close>

datatype call = Create_table | Save training_session | Delete int | Submit_form widgets

definition db_after_call :: "backend \<Rightarrow> call \<Rightarrow> database \<Rightarrow> database" where
  "db_after_call b c db =
     (case (case c of
              Create_table \<Rightarrow> map_sum id db_after (create_table b db)
            | Save session \<Rightarrow> map_sum id db_after (save_training_session b session db)
            | Delete session_id \<Rightarrow> map_sum id db_after (delete_session b session_id db)
            | Submit_form w \<Rightarrow> map_sum id db_after (tab1_add_session b w db)) of
        Inl e \<Rightarrow> db
      | Inr db' \<Rightarrow> db')"

fun db_run :: "(backend \<times> call) list \<Rightarrow> database \<Rightarrow> database" where
  "db_run [] db = db"
| "db_run ((b, c) # cs) db = db_run cs (db_after_call b c db)"

section \<open>The dashboard (pages/dashboard.py)\<close>

text \<open>
  The data frame is the fetched rows in ascending date order. Python floats are read as
  the real numbers they approximate, and NaN as \<open>None\<close>: \<open>Series.mean\<close> of an empty
  series is NaN, and NaN propagates through subtraction.
\<close>

definition series_mean :: "int list \<Rightarrow> real option" where
  "series_mean xs = (if xs = [] then None else Some (real_of_int (sum_list xs) / real (length xs)))"

definition df_tail :: "nat \<Rightarrow> 'a list \<Rightarrow> 'a list" where
  "df_tail n df = drop (length df - n) df"

definition last_5_avg :: "session_row list \<Rightarrow> real option" where
  "last_5_avg df = series_mean (map rating (df_tail 5 df))"

definition all_time_avg :: "session_row list \<Rightarrow> real option" where
  "all_time_avg df = series_mean (map rating df)"

definition rating_diff :: "session_row list \<Rightarrow> real option" where
  "rating_diff df =
     (case (last_5_avg df, all_time_avg df) of
        (Some a, Some b) \<Rightarrow> Some (a - b)
      | _ \<Rightarrow> None)"

text \<open>
  The form metric of the page: nothing is computed when no data was fetched (the page
  shows a warning instead); otherwise the 5-session average and its difference from the
  all-time average.
\<close>

definition current_form :: "session_row list \<Rightarrow> (real option \<times> real option) option" where
  "current_form data =
     (if data = [] then None
      else (let df = sort_key date data in Some (last_5_avg df, rating_diff df)))"

text \<open>
  The label given to rows without a position: a weight-lifter emoji (seven bytes of
  UTF-8) and the words.
\<close>

definition physical_only :: string where
  "physical_only =
     [CHR 0xF0, CHR 0x9F, CHR 0x8F, CHR 0x8B, CHR 0xEF, CHR 0xB8, CHR 0x8F] @ '' Physical Only''"

definition fillna_position :: "session_row list \<Rightarrow> session_row list" where
  "fillna_position df =
     map (\<lambda>r. r\<lparr>position := Some (case position r of None \<Rightarrow> physical_only | Some p \<Rightarrow> p)\<rparr>) df"




text \<open>
  The top of the page: the fetch, the warning when nothing came back, and otherwise the
  form metric. Of the page's computations only this metric is carried in the result.
\<close>

definition dashboard_page ::
  "backend \<Rightarrow> database \<Rightarrow> exn + (real option \<times> real option) option outcome" where
  "dashboard_page b db =
     (case fetch_all_sessions b db of
        Inl e \<Rightarrow> Inl e
      | Inr out \<Rightarrow>
          (let data = returned out
           in if data = []
              then Inr \<lparr>db_after = db_after out,
                        shown = shown out @
                          [St_warning ''No data found. Please add some training sessions first.''],
                        returned = None\<rparr>
              else Inr \<lparr>db_after = db_after out, shown = shown out,
                        returned = current_form data\<rparr>))"

subsection \<open>Correlation\<close>

text \<open>
  Modelled from the spec: the deviations of a column from its mean and the sum of the
  products of two lists, the parts of the correlation coefficient. The computation itself
  is the data frame library's \<open>Series.corr\<close>, which is not under src/.
\<close>

definition deviations :: "int list \<Rightarrow> real list" where
  "deviations xs = map (\<lambda>x. real_of_int x - real_of_int (sum_list xs) / real (length xs)) xs"

definition sum_products :: "real list \<Rightarrow> real list \<Rightarrow> real" where
  "sum_products ds es = sum_list (map (\<lambda>(d, e). d * e) (zip ds es))"

text \<open>
  Modelled from the spec: the correlation of two columns, missing from src/ (the page
  calls the data frame library's \<open>Series.corr\<close>). The spec gives it as the Pearson
  correlation coefficient over the two fields across all records, undefined when fewer
  than 2 records exist or the variance of either field is 0. The undefined value (NaN) is
  \<open>None\<close>. The sums of squared deviations stand for the variances: the common factor
  cancels in the quotient.
\<close>

definition series_corr :: "int list \<Rightarrow> int list \<Rightarrow> real option" where
  "series_corr xs ys =
     (let dx = deviations xs; dy = deviations ys;
          sxx = sum_products dx dx; syy = sum_products dy dy; sxy = sum_products dx dy
      in if length xs < 2 \<or> sxx = 0 \<or> syy = 0 then None
         else Some (sxy / (sqrt sxx * sqrt syy)))"

text \<open>A comparison of a float with a number: false when the float is NaN.\<close>

definition nan_gt :: "real option \<Rightarrow> real \<Rightarrow> bool" where
  "nan_gt c x = (case c of None \<Rightarrow> False | Some r \<Rightarrow> r > x)"

definition nan_lt :: "real option \<Rightarrow> real \<Rightarrow> bool" where
  "nan_lt c x = (case c of None \<Rightarrow> False | Some r \<Rightarrow> r < x)"

text \<open>
  The insights the page appends from the correlation of duration and rating; the block
  runs only on five rows or more. The texts start with a stopwatch and a warning sign,
  six bytes each.
\<close>

definition correlation_insight :: "session_row list \<Rightarrow> string list" where
  "correlation_insight df =
     (if length df \<ge> 5
      then (if nan_gt (series_corr (map duration_mins df) (map rating df)) (3 / 10)
            then [[CHR 0xE2, CHR 0x8F, CHR 0xB1, CHR 0xEF, CHR 0xB8, CHR 0x8F] @
                  '' **Longer sessions correlate with better performance ratings.** The extra practice is paying off!'']
            else if nan_lt (series_corr (map duration_mins df) (map rating df)) (- (3 / 10))
            then [[CHR 0xE2, CHR 0x9A, CHR 0xA0, CHR 0xEF, CHR 0xB8, CHR 0x8F] @
                  '' **Longer sessions may be causing fatigue.** Consider shorter, more focused sessions.'']
            else [])
      else [])"

text \<open>The heat map's matrix: the correlation of every pair of the seven metrics.\<close>

definition heatmap_metrics :: "(session_row \<Rightarrow> int) list" where
  "heatmap_metrics = [goals, assists, tackles, passes_completed, crosses, shots_on_target, rating]"

definition corr_matrix :: "session_row list \<Rightarrow> real option list list" where
  "corr_matrix df =
     map (\<lambda>f. map (\<lambda>g. series_corr (map f df) (map g df)) heatmap_metrics) heatmap_metrics"

section \<open>Example data\<close>

text \<open>
  A Match session on the given date with the given rating; the other fields are the
  form's initial values.
\<close>

definition match_session :: "timestamp \<Rightarrow> int \<Rightarrow> training_session" where
  "match_session d r =
     \<lparr>date = d, session_type = ''Match'', duration_mins = 60,
      position = Some ''Striker (ST)'', goals = 0, assists = 0, tackles = 5,
      passes_completed = 20, crosses = 5, shots_on_target = 3, rating = r,
      comments = []\<rparr>"

text \<open>The widget state that submits such a session: the Save button is pressed.\<close>

definition match_widgets :: "timestamp \<Rightarrow> int \<Rightarrow> widgets" where
  "match_widgets d r =
     \<lparr>w_date = d, w_session_type = ''Match'', w_duration_mins = 60,
      w_position = ''Striker (ST)'', w_goals = 0, w_assists = 0, w_tackles = 5,
      w_passes_completed = 20, w_crosses = 5, w_shots_on_target = 3, w_rating = r,
      w_comments = [], w_save_clicked = True\<rparr>"

text \<open>
  A Physical Training submission whose counting widgets still hold values from an
  earlier session type.
\<close>

definition physical_widgets :: widgets where
  "physical_widgets =
     \<lparr>w_date = 1, w_session_type = ''Physical Training'', w_duration_mins = 45,
      w_position = ''None (Bench/Fitness Only)'', w_goals = 2, w_assists = 1, w_tackles = 5,
      w_passes_completed = 20, w_crosses = 5, w_shots_on_target = 3, w_rating = 4,
      w_comments = [], w_save_clicked = True\<rparr>"

text \<open>
  Six Match rows on the dates 1 to 6, each rated as its date, in the order a fetch returns
  them: latest first.
\<close>

definition six_fetched :: "session_row list" where
  "six_fetched =
     [mk_row 6 15 (match_session 6 6), mk_row 5 14 (match_session 5 5),
      mk_row 4 13 (match_session 4 4), mk_row 3 12 (match_session 3 3),
      mk_row 2 11 (match_session 2 2), mk_row 1 10 (match_session 1 1)]"

section \<open>Counting stats\<close>

text \<open>
  The six counting stats of a session or row, and the property that they are all zero
  when the session type is Physical Training.
\<close>

definition counting_stats :: "'a training_session_scheme \<Rightarrow> int list" where
  "counting_stats r =
     [goals r, assists r, tackles r, passes_completed r, crosses r, shots_on_target r]"

definition physical_stats_zero :: "'a training_session_scheme \<Rightarrow> bool" where
  "physical_stats_zero r =
     (session_type r = ''Physical Training'' \<longrightarrow> counting_stats r = [0, 0, 0, 0, 0, 0])"

text \<open>The calls the application makes; it saves only what the form produced.\<close>

definition app_call :: "call \<Rightarrow> bool" where
  "app_call c = (case c of Save session \<Rightarrow> False | _ \<Rightarrow> True)"

section \<open>Schema constraints\<close>

text \<open>
  The constraints the schema declares, as a predicate on the database: \<open>id\<close> is a
  primary key, \<open>(date, session_type)\<close> is unique, and the sequence is ahead of
  every \<open>id\<close> it has given out.
\<close>

definition constraints_hold :: "database \<Rightarrow> bool" where
  "constraints_hold db =
     (distinct (map row_id (stored_rows db)) \<and>
      distinct (map session_key (stored_rows db)) \<and>
      (case db of None \<Rightarrow> True | Some tb \<Rightarrow> list_all (\<lambda>r. row_id r < next_id tb) (rows tb)))"

section \<open>Each operation, branch by branch\<close>

lemma get_connection_simps:
  "get_connection (Unreachable e) = (None, [St_error (cross_mark @ '' DB connection failed: '' @ e)])"
  "get_connection (Stmt_fails e) = (Some (Faulty e), [])"
  "get_connection (Up t) = (Some (Live t), [])"
  by (simp_all add: get_connection_def)

lemma session_key_insert_values: "session_key (insert_values s) = session_key s"
  by (simp add: session_key_def insert_values_def)

lemma session_key_mk_row: "session_key (mk_row i t v) = session_key v"
  by (simp add: session_key_def mk_row_def)

lemma row_id_mk_row: "row_id (mk_row i t v) = i"
  by (simp add: mk_row_def)

lemma row_values_mk_row: "row_values (mk_row i t v) = v"
  by (simp add: mk_row_def row_values_def)

lemma date_mk_row: "date (mk_row i t v) = date v"
  by (simp add: mk_row_def)

lemma save_Unreachable:
  "save_training_session (Unreachable e) s db =
     Inr \<lparr>db_after = db,
          shown = [St_error (cross_mark @ '' DB connection failed: '' @ e)],
          returned = ()\<rparr>"
  by (simp add: save_training_session_def get_connection_simps)

lemma save_Stmt_fails:
  "save_training_session (Stmt_fails e) s db =
     Inr \<lparr>db_after = db,
          shown = [St_error (cross_mark @ '' Error saving session: '' @ e)],
          returned = ()\<rparr>"
  by (simp add: save_training_session_def get_connection_simps exec_insert_def)

lemma save_Up_no_table:
  "save_training_session (Up t) s None =
     Inr \<lparr>db_after = None,
          shown = [St_error (cross_mark @ '' Error saving session: '' @ undefined_table)],
          returned = ()\<rparr>"
  by (simp add: save_training_session_def get_connection_simps exec_insert_def)

lemma save_Up_duplicate:
  "session_key s \<in> session_key ` set (rows tb) \<Longrightarrow>
   save_training_session (Up t) s (Some tb) =
     Inr \<lparr>db_after = Some (tb\<lparr>next_id := next_id tb + 1\<rparr>),
          shown = [St_error (cross_mark @ '' Session already exists for this date and type.'')],
          returned = ()\<rparr>"
  by (simp add: save_training_session_def get_connection_simps exec_insert_def
      session_key_insert_values close_uncommitted_def)

lemma save_Up_fresh:
  "session_key s \<notin> session_key ` set (rows tb) \<Longrightarrow>
   save_training_session (Up t) s (Some tb) =
     Inr \<lparr>db_after = Some \<lparr>rows = rows tb @ [mk_row (next_id tb) t (insert_values s)],
                           next_id = next_id tb + 1\<rparr>,
          shown = [St_success (check_mark @ '' Session saved successfully.'')],
          returned = ()\<rparr>"
  by (simp add: save_training_session_def get_connection_simps exec_insert_def
      session_key_insert_values)

lemma fetch_Unreachable:
  "fetch_all_sessions (Unreachable e) db =
     Inr \<lparr>db_after = db,
          shown = [St_error (cross_mark @ '' DB connection failed: '' @ e)],
          returned = []\<rparr>"
  by (simp add: fetch_all_sessions_def get_connection_simps)

lemma fetch_Stmt_fails:
  "fetch_all_sessions (Stmt_fails e) db =
     Inr \<lparr>db_after = db,
          shown = [St_error (cross_mark @ '' Error fetching data: '' @ e)],
          returned = []\<rparr>"
  by (simp add: fetch_all_sessions_def get_connection_simps exec_select_def)

lemma fetch_Up_no_table:
  "fetch_all_sessions (Up t) None =
     Inr \<lparr>db_after = None,
          shown = [St_error (cross_mark @ '' Error fetching data: '' @ undefined_table)],
          returned = []\<rparr>"
  by (simp add: fetch_all_sessions_def get_connection_simps exec_select_def)

lemma fetch_Up:
  "fetch_all_sessions (Up t) (Some tb) =
     Inr \<lparr>db_after = Some tb, shown = [],
          returned = sort_key (\<lambda>r. - date r) (rows tb)\<rparr>"
  by (simp add: fetch_all_sessions_def get_connection_simps exec_select_def)

lemma delete_Unreachable:
  "delete_session (Unreachable e) i db =
     Inr \<lparr>db_after = db,
          shown = [St_error (cross_mark @ '' DB connection failed: '' @ e)],
          returned = False\<rparr>"
  by (simp add: delete_session_def get_connection_simps)

lemma delete_Stmt_fails:
  "delete_session (Stmt_fails e) i db =
     Inr \<lparr>db_after = db,
          shown = [St_error (cross_mark @ '' Error deleting session: '' @ e)],
          returned = False\<rparr>"
  by (simp add: delete_session_def get_connection_simps exec_delete_def)

lemma delete_Up_no_table:
  "delete_session (Up t) i None =
     Inr \<lparr>db_after = None,
          shown = [St_error (cross_mark @ '' Error deleting session: '' @ undefined_table)],
          returned = False\<rparr>"
  by (simp add: delete_session_def get_connection_simps exec_delete_def)

lemma delete_Up_found:
  "i \<in> row_id ` set (rows tb) \<Longrightarrow>
   delete_session (Up t) i (Some tb) =
     Inr \<lparr>db_after = Some (tb\<lparr>rows := filter (\<lambda>r. row_id r \<noteq> i) (rows tb)\<rparr>),
          shown = [], returned = True\<rparr>"
  by (auto simp add: delete_session_def get_connection_simps exec_delete_def filter_empty_conv)

lemma filter_neq_id: "i \<notin> f ` set xs \<Longrightarrow> filter (\<lambda>r. f r \<noteq> i) xs = xs"
  by (induction xs) auto

lemma delete_Up_not_found:
  "i \<notin> row_id ` set (rows tb) \<Longrightarrow>
   delete_session (Up t) i (Some tb) =
     Inr \<lparr>db_after = Some tb, shown = [St_warning ''Session not found.''],
          returned = False\<rparr>"
  by (auto simp add: delete_session_def get_connection_simps exec_delete_def filter_empty_conv filter_neq_id)

lemma create_Up:
  "create_table (Up t) db =
     Inr \<lparr>db_after = (case db of None \<Rightarrow> Some \<lparr>rows = [], next_id = 1\<rparr> | Some tb \<Rightarrow> Some tb),
          shown = [Printed (check_mark @ '' Table created or already exists.'')],
          returned = ()\<rparr>"
  by (simp add: create_table_def get_connection_simps exec_create_def split: option.splits)

lemma create_Unreachable:
  "create_table (Unreachable e) db =
     Inr \<lparr>db_after = db,
          shown = [St_error (cross_mark @ '' DB connection failed: '' @ e)],
          returned = ()\<rparr>"
  by (simp add: create_table_def get_connection_simps)

lemma create_Stmt_fails: "create_table (Stmt_fails e) db = Inl (Exn e)"
  by (simp add: create_table_def get_connection_simps exec_create_def)

section \<open>The constraints are preserved\<close>

lemma constraints_hold_None: "constraints_hold None"
  by (simp add: constraints_hold_def stored_rows_def)

lemma constraints_hold_create:
  assumes "constraints_hold db" and "create_table b db = Inr out"
  shows "constraints_hold (db_after out)"
proof (cases b)
  case (Unreachable e)
  with assms show ?thesis by (auto simp: create_Unreachable)
next
  case (Stmt_fails e)
  with assms show ?thesis by (simp add: create_Stmt_fails)
next
  case (Up t)
  with assms show ?thesis
    by (cases db) (auto simp: create_Up constraints_hold_def stored_rows_def)
qed

lemma constraints_hold_save:
  assumes "constraints_hold db" and "save_training_session b s db = Inr out"
  shows "constraints_hold (db_after out)"
proof (cases b)
  case (Unreachable e)
  with assms show ?thesis by (auto simp: save_Unreachable)
next
  case (Stmt_fails e)
  with assms show ?thesis by (auto simp: save_Stmt_fails)
next
  case (Up t)
  show ?thesis
  proof (cases db)
    case None
    with Up assms show ?thesis by (auto simp: save_Up_no_table)
  next
    case (Some tb)
    show ?thesis
    proof (cases "session_key s \<in> session_key ` set (rows tb)")
      case True
      from assms(2) have "db_after out = Some (tb\<lparr>next_id := next_id tb + 1\<rparr>)"
        unfolding Up Some save_Up_duplicate [OF True] by auto
      with assms(1) Some show ?thesis
        by (auto simp: constraints_hold_def stored_rows_def list_all_iff)
    next
      case False
      from assms(2) have "db_after out =
          Some \<lparr>rows = rows tb @ [mk_row (next_id tb) t (insert_values s)],
                next_id = next_id tb + 1\<rparr>"
        unfolding Up Some save_Up_fresh [OF False] by auto
      with assms(1) Some False show ?thesis
        by (auto simp: constraints_hold_def stored_rows_def list_all_iff
            session_key_mk_row session_key_insert_values row_id_mk_row)
    qed
  qed
qed

lemma constraints_hold_delete:
  assumes "constraints_hold db" and "delete_session b i db = Inr out"
  shows "constraints_hold (db_after out)"
proof (cases b)
  case (Unreachable e)
  with assms show ?thesis by (auto simp: delete_Unreachable)
next
  case (Stmt_fails e)
  with assms show ?thesis by (auto simp: delete_Stmt_fails)
next
  case (Up t)
  show ?thesis
  proof (cases db)
    case None
    with Up assms show ?thesis by (auto simp: delete_Up_no_table)
  next
    case (Some tb)
    show ?thesis
    proof (cases "i \<in> row_id ` set (rows tb)")
      case True
      from assms(2) have "db_after out = Some (tb\<lparr>rows := filter (\<lambda>r. row_id r \<noteq> i) (rows tb)\<rparr>)"
        unfolding Up Some delete_Up_found [OF True] by auto
      with assms(1) Some show ?thesis
        by (auto simp: constraints_hold_def stored_rows_def list_all_iff distinct_map_filter)
    next
      case False
      from assms(2) have "db_after out = db"
        unfolding Up Some delete_Up_not_found [OF False] by auto
      with assms(1) show ?thesis by simp
    qed
  qed
qed

lemma constraints_hold_tab1:
  assumes "constraints_hold db" and "tab1_add_session b w db = Inr out"
  shows "constraints_hold (db_after out)"
proof (cases "training_form w")
  case (Pair fdo msgs)
  show ?thesis
  proof (cases fdo)
    case None
    with Pair assms show ?thesis by (auto simp: tab1_add_session_def)
  next
    case (Some fd)
    with Pair assms(2) obtain out' where
      "save_training_session b (build_training_session fd) db = Inr out'"
      "db_after out = db_after out'"
      by (auto simp: tab1_add_session_def split: sum.splits)
    with constraints_hold_save [OF assms(1)] show ?thesis by simp
  qed
qed

lemma constraints_hold_call:
  "constraints_hold db \<Longrightarrow> constraints_hold (db_after_call b c db)"
  by (cases c)
    (auto simp: db_after_call_def map_sum_def split: sum.splits
      intro: constraints_hold_create constraints_hold_save constraints_hold_delete
        constraints_hold_tab1)

lemma constraints_hold_run:
  "constraints_hold db \<Longrightarrow> constraints_hold (db_run calls db)"
  by (induction calls arbitrary: db) (auto simp: constraints_hold_call)

section \<open>Which operations can raise\<close>

lemma save_never_raises: "\<exists>out. save_training_session b s db = Inr out"
proof (cases b)
  case (Up t)
  show ?thesis
  proof (cases db)
    case None
    with Up show ?thesis by (simp add: save_Up_no_table)
  next
    case (Some tb)
    with Up show ?thesis
      by (cases "session_key s \<in> session_key ` set (rows tb)")
        (simp_all add: save_Up_duplicate save_Up_fresh)
  qed
qed (simp_all add: save_Unreachable save_Stmt_fails)

lemma fetch_never_raises: "\<exists>out. fetch_all_sessions b db = Inr out"
  by (cases b; cases db)
    (simp_all add: fetch_Unreachable fetch_Stmt_fails fetch_Up_no_table fetch_Up)

lemma delete_never_raises: "\<exists>out. delete_session b i db = Inr out"
proof (cases b)
  case (Up t)
  show ?thesis
  proof (cases db)
    case None
    with Up show ?thesis by (simp add: delete_Up_no_table)
  next
    case (Some tb)
    with Up show ?thesis
      by (cases "i \<in> row_id ` set (rows tb)")
        (simp_all add: delete_Up_found delete_Up_not_found)
  qed
qed (simp_all add: delete_Unreachable delete_Stmt_fails)

lemma create_raises_iff:
  "create_table b db = Inl x \<longleftrightarrow> (\<exists>e. b = Stmt_fails e \<and> x = Exn e)"
  by (cases b) (auto simp: create_Unreachable create_Stmt_fails create_Up)

lemma create_again:
  assumes "create_table (Up t) db = Inr out" and "create_table b' (db_after out) = Inr out'"
  shows "db_after out' = db_after out"
proof -
  from assms(1) obtain tb where tb: "db_after out = Some tb"
    by (cases db) (auto simp: create_Up)
  show ?thesis
  proof (cases b')
    case (Unreachable e)
    with assms(2) show ?thesis by (auto simp: create_Unreachable)
  next
    case (Stmt_fails e)
    with assms(2) show ?thesis by (simp add: create_Stmt_fails)
  next
    case (Up t')
    with assms(2) tb show ?thesis by (auto simp: create_Up)
  qed
qed

section \<open>Small facts\<close>

lemma stored_rows_simps:
  "stored_rows None = []" "stored_rows (Some tb) = rows tb"
  by (simp_all add: stored_rows_def)

lemma filter_key_fresh:
  "k \<notin> f ` set xs \<Longrightarrow> filter (\<lambda>r. f r = k) xs = []"
  by (induction xs) auto

lemma mark_simps:
  "cross_mark @ s = CHR 0xE2 # CHR 0x9D # CHR 0x8C # s"
  "check_mark @ s = CHR 0xE2 # CHR 0x9C # CHR 0x85 # s"
  by (simp_all add: cross_mark_def check_mark_def)

section \<open>The example session\<close>

lemma insert_values_match: "insert_values (match_session d r) = match_session d r"
  by (simp add: insert_values_def match_session_def)

lemma session_key_match: "session_key (match_session d r) = (d, ''Match'')"
  by (simp add: session_key_def match_session_def)

lemma form_match_widgets:
  "\<exists>fd. training_form (match_widgets d r) =
          (Some fd, [St_success (''Training Session Saved Successfully! '' @ check_mark)]) \<and>
        build_training_session fd = match_session d r"
  by (simp add: training_form_def match_widgets_def build_training_session_def match_session_def)

lemma tab1_match_widgets:
  "tab1_add_session b (match_widgets d r) db =
     (case save_training_session b (match_session d r) db of
        Inl e \<Rightarrow> Inl e
      | Inr out \<Rightarrow>
          Inr \<lparr>db_after = db_after out,
               shown = St_success (''Training Session Saved Successfully! '' @ check_mark) #
                 shown out @
                 [St_success (check_mark @ '' Training Session Saved Successfully!'')],
               returned = ()\<rparr>)"
proof -
  from form_match_widgets [of d r] obtain fd where
    "training_form (match_widgets d r) =
       (Some fd, [St_success (''Training Session Saved Successfully! '' @ check_mark)])"
    "build_training_session fd = match_session d r"
    by blast
  then show ?thesis by (simp add: tab1_add_session_def split: sum.splits)
qed

section \<open>Deleting, and running calls\<close>

lemma filter_neq_remove1:
  "distinct (map f xs) \<Longrightarrow> r \<in> set xs \<Longrightarrow> filter (\<lambda>x. f x \<noteq> f r) xs = remove1 r xs"
proof (induction xs)
  case Nil
  then show ?case by simp
next
  case (Cons x xs)
  show ?case
  proof (cases "x = r")
    case True
    with Cons.prems have "f r \<notin> f ` set xs" by simp
    with True show ?thesis by (simp add: filter_neq_id)
  next
    case False
    with Cons.prems have "r \<in> set xs" "f x \<noteq> f r" by auto
    with Cons False show ?thesis by simp
  qed
qed

lemma key_not_in_remove1:
  "distinct (map f xs) \<Longrightarrow> r \<in> set xs \<Longrightarrow> f r \<notin> f ` set (remove1 r xs)"
proof (induction xs)
  case Nil
  then show ?case by simp
next
  case (Cons x xs)
  show ?case
  proof (cases "x = r")
    case True
    with Cons.prems show ?thesis by simp
  next
    case False
    with Cons.prems have r: "r \<in> set xs" and x: "f x \<notin> f ` set xs" by auto
    from r x have "f r \<noteq> f x" by (metis imageI)
    with Cons.IH Cons.prems r False show ?thesis by simp
  qed
qed

lemma reached_constraints: "constraints_hold (db_run calls None)"
  by (rule constraints_hold_run [OF constraints_hold_None])

lemma delete_shapes:
  "\<exists>out. delete_session b i db = Inr out \<and>
      (returned out = True \<and> shown out = [] \<and> i \<in> row_id ` set (stored_rows db) \<and>
         stored_rows (db_after out) = filter (\<lambda>r. row_id r \<noteq> i) (stored_rows db)
       \<or> returned out = False \<and> shown out = [St_warning ''Session not found.''] \<and>
         i \<notin> row_id ` set (stored_rows db) \<and> db_after out = db
       \<or> returned out = False \<and>
         (\<exists>e. shown out = [St_error (cross_mark @ '' DB connection failed: '' @ e)] \<or>
              shown out = [St_error (cross_mark @ '' Error deleting session: '' @ e)]) \<and>
         db_after out = db)"
proof (cases b)
  case (Unreachable e)
  then show ?thesis by (auto simp: delete_Unreachable)
next
  case (Stmt_fails e)
  then show ?thesis by (auto simp: delete_Stmt_fails)
next
  case (Up t)
  show ?thesis
  proof (cases db)
    case None
    with Up show ?thesis by (auto simp: delete_Up_no_table)
  next
    case (Some tb)
    show ?thesis
    proof (cases "i \<in> row_id ` set (rows tb)")
      case True
      with Up Some show ?thesis
        by (simp add: delete_Up_found [OF True] stored_rows_simps)
    next
      case False
      with Up Some show ?thesis
        by (simp add: delete_Up_not_found [OF False] stored_rows_simps)
    qed
  qed
qed

lemma delete_stored_row:
  assumes "constraints_hold (Some tb)" and "r \<in> set (rows tb)"
  shows "\<exists>out fetched.
      delete_session (Up t) (row_id r) (Some tb) = Inr out \<and>
      returned out = True \<and> shown out = [] \<and>
      stored_rows (db_after out) = remove1 r (rows tb) \<and>
      fetch_all_sessions (Up t') (db_after out) = Inr fetched \<and>
      r \<notin> set (returned fetched) \<and>
      mset (returned fetched) = mset (rows tb) - {#r#} \<and>
      delete_session (Up t'') (row_id r) (db_after out) =
        Inr \<lparr>db_after = db_after out, shown = [St_warning ''Session not found.''],
             returned = False\<rparr>"
proof -
  from assms(1) have d: "distinct (map row_id (rows tb))"
    by (simp add: constraints_hold_def stored_rows_simps)
  then have d': "distinct (rows tb)" by (rule distinct_map [THEN iffD1, THEN conjunct1])
  let ?tb' = "tb\<lparr>rows := remove1 r (rows tb)\<rparr>"
  have found: "row_id r \<in> row_id ` set (rows tb)" using assms(2) by simp
  have del: "delete_session (Up t) (row_id r) (Some tb) =
      Inr \<lparr>db_after = Some ?tb', shown = [], returned = True\<rparr>"
    by (simp add: delete_Up_found [OF found] filter_neq_remove1 [OF d assms(2)])
  have gone: "row_id r \<notin> row_id ` set (rows ?tb')"
    using key_not_in_remove1 [OF d assms(2)] by simp
  have again: "delete_session (Up t'') (row_id r) (Some ?tb') =
      Inr \<lparr>db_after = Some ?tb', shown = [St_warning ''Session not found.''],
           returned = False\<rparr>"
    by (rule delete_Up_not_found [OF gone])
  have fetch: "fetch_all_sessions (Up t') (Some ?tb') =
      Inr \<lparr>db_after = Some ?tb', shown = [],
           returned = sort_key (\<lambda>r. - date r) (remove1 r (rows tb))\<rparr>"
    by (simp add: fetch_Up)
  have notin: "r \<notin> set (sort_key (\<lambda>r. - date r) (remove1 r (rows tb)))"
    using d' by simp
  have ms: "mset (sort_key (\<lambda>r. - date r) (remove1 r (rows tb))) = mset (rows tb) - {#r#}"
    by simp
  from del again fetch notin ms show ?thesis by (simp add: stored_rows_simps)
qed

lemma db_after_call_create_Up:
  "db_after_call (Up t) Create_table db =
     (case db of None \<Rightarrow> Some \<lparr>rows = [], next_id = 1\<rparr> | Some tb \<Rightarrow> Some tb)"
  by (simp add: db_after_call_def create_Up)

lemma db_after_call_save_fresh:
  "session_key s \<notin> session_key ` set (rows tb) \<Longrightarrow>
   db_after_call (Up t) (Save s) (Some tb) =
     Some \<lparr>rows = rows tb @ [mk_row (next_id tb) t (insert_values s)],
           next_id = next_id tb + 1\<rparr>"
  by (simp add: db_after_call_def save_Up_fresh)

lemma run_create_save:
  "db_run [(Up 0, Create_table), (Up 10, Save (match_session 1 3))] None =
     Some \<lparr>rows = [mk_row 1 10 (match_session 1 3)], next_id = 2\<rparr>"
  by (simp add: db_after_call_create_Up db_after_call_save_fresh insert_values_match)

section \<open>Saving many sessions, and the fetch order\<close>

lemma run_saves:
  "distinct (map session_key ss) \<Longrightarrow> length ts = length ss \<Longrightarrow>
   session_key ` set ss \<inter> session_key ` set (rows tb) = {} \<Longrightarrow>
   \<exists>tb'. db_run (zip (map Up ts) (map Save ss)) (Some tb) = Some tb' \<and>
         map row_values (rows tb') = map row_values (rows tb) @ map insert_values ss"
proof (induction ss arbitrary: ts tb)
  case Nil
  then show ?case by simp
next
  case (Cons s ss)
  from Cons.prems(2) obtain t ts' where ts: "ts = t # ts'" and len: "length ts' = length ss"
    by (cases ts) auto
  from Cons.prems(3) have fresh: "session_key s \<notin> session_key ` set (rows tb)" by auto
  let ?tb1 = "\<lparr>rows = rows tb @ [mk_row (next_id tb) t (insert_values s)],
               next_id = next_id tb + 1\<rparr>"
  have step: "db_after_call (Up t) (Save s) (Some tb) = Some ?tb1"
    by (rule db_after_call_save_fresh [OF fresh])
  from Cons.prems(1) have d: "distinct (map session_key ss)"
    and s: "session_key s \<notin> session_key ` set ss" by auto
  have disj: "session_key ` set ss \<inter> session_key ` set (rows ?tb1) = {}"
    using Cons.prems(3) s by (auto simp: session_key_mk_row session_key_insert_values)
  from Cons.IH [OF d len disj] obtain tb' where
    run: "db_run (zip (map Up ts') (map Save ss)) (Some ?tb1) = Some tb'" and
    vals: "map row_values (rows tb') = map row_values (rows ?tb1) @ map insert_values ss"
    by blast
  have "db_run (zip (map Up ts) (map Save (s # ss))) (Some tb) = Some tb'"
    using run step by (simp add: ts)
  moreover have "map row_values (rows tb') =
      map row_values (rows tb) @ map insert_values (s # ss)"
    using vals by (simp add: row_values_mk_row)
  ultimately show ?case by blast
qed

lemma sorted_desc_fetch:
  "sorted_wrt (\<lambda>a b. date b \<le> date a) (sort_key (\<lambda>r. - date r) (xs :: session_row list))"
proof -
  have "sorted (map (\<lambda>r. - date r) (sort_key (\<lambda>r. - date r) xs))"
    by (rule sorted_sort_key)
  then show ?thesis by (simp add: sorted_map)
qed

lemma insert_values_id: "position s \<noteq> Some ''None'' \<Longrightarrow> insert_values s = s"
  by (simp add: insert_values_def)

section \<open>The form and the counting stats\<close>

lemma psz_mk_row: "physical_stats_zero (mk_row i t (insert_values s)) = physical_stats_zero s"
  by (simp add: physical_stats_zero_def counting_stats_def mk_row_def insert_values_def)

lemma training_form_physical:
  assumes "w_session_type w = ''Physical Training''" and "w_save_clicked w"
  shows "\<exists>fd msgs. training_form w = (Some fd, msgs) \<and>
           fd_session_type fd = ''Physical Training'' \<and>
           [fd_goals fd, fd_assists fd, fd_tackles fd, fd_passes_completed fd, fd_crosses fd,
            fd_shots_on_target fd] = [0, 0, 0, 0, 0, 0] \<and>
           session_type (build_training_session fd) = ''Physical Training'' \<and>
           counting_stats (build_training_session fd) = [0, 0, 0, 0, 0, 0]"
  using assms
  by (simp add: training_form_def build_training_session_def counting_stats_def)

lemma training_form_psz:
  "training_form w = (Some fd, msgs) \<Longrightarrow> physical_stats_zero (build_training_session fd)"
  by (auto simp: training_form_def build_training_session_def physical_stats_zero_def
      counting_stats_def Let_def split: if_splits)

lemma psz_save:
  assumes "list_all physical_stats_zero (stored_rows db)" and "physical_stats_zero s"
    and "save_training_session b s db = Inr out"
  shows "list_all physical_stats_zero (stored_rows (db_after out))"
proof (cases b)
  case (Unreachable e)
  with assms show ?thesis by (auto simp: save_Unreachable)
next
  case (Stmt_fails e)
  with assms show ?thesis by (auto simp: save_Stmt_fails)
next
  case (Up t)
  show ?thesis
  proof (cases db)
    case None
    with Up assms show ?thesis by (auto simp: save_Up_no_table)
  next
    case (Some tb)
    show ?thesis
    proof (cases "session_key s \<in> session_key ` set (rows tb)")
      case True
      from assms(3) have "db_after out = Some (tb\<lparr>next_id := next_id tb + 1\<rparr>)"
        unfolding Up Some save_Up_duplicate [OF True] by auto
      with assms(1) Some show ?thesis by (simp add: stored_rows_simps)
    next
      case False
      from assms(3) have "db_after out =
          Some \<lparr>rows = rows tb @ [mk_row (next_id tb) t (insert_values s)],
                next_id = next_id tb + 1\<rparr>"
        unfolding Up Some save_Up_fresh [OF False] by auto
      with assms(1,2) Some show ?thesis by (simp add: stored_rows_simps psz_mk_row)
    qed
  qed
qed

lemma psz_delete:
  assumes "list_all physical_stats_zero (stored_rows db)"
    and "delete_session b i db = Inr out"
  shows "list_all physical_stats_zero (stored_rows (db_after out))"
proof -
  from delete_shapes [of b i db] assms(2)
  have "stored_rows (db_after out) = filter (\<lambda>r. row_id r \<noteq> i) (stored_rows db) \<or>
      db_after out = db"
    by auto
  with assms(1) show ?thesis by (auto simp: list_all_iff)
qed

lemma psz_create:
  assumes "list_all physical_stats_zero (stored_rows db)"
    and "create_table b db = Inr out"
  shows "list_all physical_stats_zero (stored_rows (db_after out))"
proof (cases b)
  case (Unreachable e)
  with assms show ?thesis by (auto simp: create_Unreachable)
next
  case (Stmt_fails e)
  with assms show ?thesis by (simp add: create_Stmt_fails)
next
  case (Up t)
  with assms show ?thesis by (cases db) (auto simp: create_Up stored_rows_simps)
qed

lemma psz_tab1:
  assumes "list_all physical_stats_zero (stored_rows db)"
    and "tab1_add_session b w db = Inr out"
  shows "list_all physical_stats_zero (stored_rows (db_after out))"
proof (cases "training_form w")
  case (Pair fdo msgs)
  show ?thesis
  proof (cases fdo)
    case None
    with Pair assms show ?thesis by (auto simp: tab1_add_session_def)
  next
    case (Some fd)
    with Pair assms(2) obtain out' where
      "save_training_session b (build_training_session fd) db = Inr out'"
      "db_after out = db_after out'"
      by (auto simp: tab1_add_session_def split: sum.splits)
    with psz_save [OF assms(1) training_form_psz] Pair Some show ?thesis by simp
  qed
qed

lemma psz_call:
  "list_all physical_stats_zero (stored_rows db) \<Longrightarrow> app_call c \<Longrightarrow>
   list_all physical_stats_zero (stored_rows (db_after_call b c db))"
  by (cases c)
    (auto simp: db_after_call_def app_call_def map_sum_def split: sum.splits
      intro: psz_create psz_delete psz_tab1)

lemma psz_run:
  "list_all physical_stats_zero (stored_rows db) \<Longrightarrow> list_all (\<lambda>bc. app_call (snd bc)) calls \<Longrightarrow>
   list_all physical_stats_zero (stored_rows (db_run calls db))"
  by (induction calls arbitrary: db) (auto simp: psz_call)

lemma physical_widgets_row:
  "\<exists>r. stored_rows (db_run [(Up 0, Create_table), (Up 10, Submit_form physical_widgets)] None)
          = [r] \<and> session_type r = ''Physical Training''"
proof -
  obtain fd msgs where f: "training_form physical_widgets = (Some fd, msgs)"
    and st: "session_type (build_training_session fd) = ''Physical Training''"
    using training_form_physical [of physical_widgets] by (auto simp: physical_widgets_def)
  have fresh: "session_key (build_training_session fd) \<notin>
      session_key ` set (rows \<lparr>rows = [], next_id = 1\<rparr>)"
    by simp
  have "db_after_call (Up 10) (Submit_form physical_widgets) (Some \<lparr>rows = [], next_id = 1\<rparr>) =
      Some \<lparr>rows = [mk_row 1 10 (insert_values (build_training_session fd))], next_id = 2\<rparr>"
    by (simp add: db_after_call_def tab1_add_session_def f save_Up_fresh [OF fresh])
  then have "stored_rows (db_run [(Up 0, Create_table), (Up 10, Submit_form physical_widgets)] None)
      = [mk_row 1 10 (insert_values (build_training_session fd))]"
    by (simp add: db_after_call_create_Up stored_rows_simps)
  moreover have "session_type (mk_row 1 10 (insert_values (build_training_session fd))) =
      ''Physical Training''"
    using st by (simp add: mk_row_def insert_values_def)
  ultimately show ?thesis by blast
qed

section \<open>The rolling window\<close>

lemma date_match: "date (match_session d r) = d"
  by (simp add: match_session_def)

lemma rating_match: "rating (match_session d r) = r"
  by (simp add: match_session_def)

lemma rating_mk_row: "rating (mk_row i t v) = rating v"
  by (simp add: mk_row_def)

lemma df_tail_window:
  fixes data :: "session_row list"
  defines "df \<equiv> sort_key date data"
  shows "\<exists>older. mset data = mset (older @ df_tail n df) \<and>
           length (df_tail n df) = min n (length data) \<and>
           (\<forall>r\<in>set older. \<forall>w\<in>set (df_tail n df). date r \<le> date w)"
proof -
  let ?k = "length df - n"
  have split: "df = take ?k df @ drop ?k df" by simp
  have "sorted (map date df)" unfolding df_def by (rule sorted_sort_key)
  then have "sorted (map date (take ?k df) @ map date (drop ?k df))"
    by (metis split map_append)
  then have ord: "\<forall>r\<in>set (take ?k df). \<forall>w\<in>set (drop ?k df). date r \<le> date w"
    by (auto simp: sorted_append)
  have ms: "mset data = mset (take ?k df @ df_tail n df)"
    unfolding df_tail_def using split by (metis df_def mset_sort)
  have len: "length (df_tail n df) = min n (length data)"
    by (simp add: df_tail_def df_def)
  from ms len ord show ?thesis unfolding df_tail_def by blast
qed

lemma three_saved:
  "db_run (zip (map Up [10, 11, 12])
               (map Save [match_session 1 3, match_session 2 4, match_session 3 5]))
          (Some \<lparr>rows = [], next_id = 1\<rparr>) =
     Some \<lparr>rows = [mk_row 1 10 (match_session 1 3), mk_row 2 11 (match_session 2 4),
                   mk_row 3 12 (match_session 3 5)],
           next_id = 4\<rparr>"
  by (simp add: db_after_call_save_fresh insert_values_match session_key_match
      session_key_mk_row)

lemma three_fetched:
  "fetch_all_sessions (Up 20)
     (Some \<lparr>rows = [mk_row 1 10 (match_session 1 3), mk_row 2 11 (match_session 2 4),
                   mk_row 3 12 (match_session 3 5)],
           next_id = 4\<rparr>) =
   Inr \<lparr>db_after =
          Some \<lparr>rows = [mk_row 1 10 (match_session 1 3), mk_row 2 11 (match_session 2 4),
                        mk_row 3 12 (match_session 3 5)],
                next_id = 4\<rparr>,
        shown = [],
        returned = [mk_row 3 12 (match_session 3 5), mk_row 2 11 (match_session 2 4),
                    mk_row 1 10 (match_session 1 3)]\<rparr>"
  by (simp add: fetch_Up date_mk_row date_match)

lemma three_form:
  "current_form [mk_row 3 12 (match_session 3 5), mk_row 2 11 (match_session 2 4),
                 mk_row 1 10 (match_session 1 3)] = Some (Some 4, Some 0)"
  by (simp add: current_form_def last_5_avg_def all_time_avg_def rating_diff_def
      series_mean_def df_tail_def date_mk_row date_match rating_mk_row rating_match)


section \<open>Grouping by position\<close>




lemma fillna_no_null: "r \<in> set (fillna_position data) \<Longrightarrow> position r \<noteq> None"
  by (auto simp: fillna_position_def)








section \<open>Correlation\<close>

lemma sum_products_self: "sum_products ds ds = sum_list (map (\<lambda>d. d * d) ds)"
  by (induction ds) (simp_all add: sum_products_def)

lemma sum_products_self_nonneg: "0 \<le> sum_products ds ds"
  unfolding sum_products_self by (rule sum_list_nonneg) auto

lemma sum_products_self_zero_iff: "sum_products ds ds = 0 \<longleftrightarrow> (\<forall>d\<in>set ds. d = 0)"
proof -
  have "sum_list (map (\<lambda>d. d * d) ds) = 0 \<longleftrightarrow> (\<forall>x\<in>set (map (\<lambda>d. d * d) ds). x = 0)"
    by (rule sum_list_nonneg_eq_0_iff) auto
  then show ?thesis unfolding sum_products_self by auto
qed

lemma quadratic_of_pairs:
  "length ds = length es \<Longrightarrow>
   sum_list (map (\<lambda>(d, e). (d * t + e) * (d * t + e)) (zip ds es)) =
   sum_products ds ds * (t * t) + 2 * sum_products ds es * t + sum_products es es"
proof (induction ds es rule: list_induct2)
  case Nil
  then show ?case by (simp add: sum_products_def)
next
  case (Cons d ds e es)
  then show ?case by (simp add: sum_products_def algebra_simps)
qed

lemma quadratic_nonneg:
  "0 \<le> sum_list (map (\<lambda>(d, e). (d * t + e) * (d * t + e)) (zip ds es :: (real \<times> real) list))"
  by (rule sum_list_nonneg) auto

lemma sum_products_zero_left: "\<forall>d\<in>set ds. d = 0 \<Longrightarrow> sum_products ds es = 0"
  unfolding sum_products_def
  by (induction ds arbitrary: es) (auto simp: zip_Cons1 split: list.splits)

lemma cauchy_schwarz_products:
  assumes len: "length ds = length es"
  shows "sum_products ds es * sum_products ds es \<le> sum_products ds ds * sum_products es es"
proof (cases "sum_products ds ds = 0")
  case True
  then have "\<forall>d\<in>set ds. d = 0" by (simp add: sum_products_self_zero_iff)
  then have "sum_products ds es = 0" by (rule sum_products_zero_left)
  with True show ?thesis by simp
next
  case False
  let ?A = "sum_products ds ds" and ?B = "sum_products es es" and ?C = "sum_products ds es"
  from False sum_products_self_nonneg [of ds] have A: "0 < ?A" by simp
  let ?t = "- ?C / ?A"
  have "0 \<le> ?A * (?t * ?t) + 2 * ?C * ?t + ?B"
    using quadratic_nonneg [of ?t ds es] quadratic_of_pairs [OF len, of ?t] by simp
  also have "?A * (?t * ?t) + 2 * ?C * ?t + ?B = ?B - ?C * ?C / ?A"
    using A by (simp add: field_simps)
  finally have "?C * ?C / ?A \<le> ?B" by simp
  with A show ?thesis by (simp add: field_simps)
qed

lemma sum_list_constant: "\<forall>x\<in>set xs. x = c \<Longrightarrow> sum_list xs = int (length xs) * (c :: int)"
  by (induction xs) (simp_all add: algebra_simps)

lemma deviations_constant:
  assumes "\<forall>x\<in>set xs. x = c"
  shows "\<forall>d\<in>set (deviations xs). d = 0"
proof (cases "xs = []")
  case True
  then show ?thesis by (simp add: deviations_def)
next
  case False
  then have n: "real (length xs) \<noteq> 0" by simp
  have "real_of_int (sum_list xs) / real (length xs) = real_of_int c"
    using n by (simp add: sum_list_constant [OF assms])
  with assms show ?thesis by (auto simp: deviations_def)
qed

lemma deviations_zero_constant:
  assumes "\<forall>d\<in>set (deviations xs). d = 0"
  shows "\<exists>c. \<forall>x\<in>set xs. x = c"
proof (cases xs)
  case Nil
  then show ?thesis by simp
next
  case (Cons a as)
  let ?m = "real_of_int (sum_list xs) / real (length xs)"
  from assms have m: "\<forall>x\<in>set xs. real_of_int x = ?m" by (auto simp: deviations_def)
  then have "real_of_int a = ?m" using Cons by simp
  with m have "\<forall>x\<in>set xs. real_of_int x = real_of_int a" by simp
  then have "\<forall>x\<in>set xs. x = a" by simp
  then show ?thesis by blast
qed

lemma zero_variance_iff:
  "sum_products (deviations xs) (deviations xs) = 0 \<longleftrightarrow> (\<exists>c. \<forall>x\<in>set xs. x = c)"
  unfolding sum_products_self_zero_iff
  using deviations_constant deviations_zero_constant by blast

lemma series_corr_None_iff:
  "series_corr xs ys = None \<longleftrightarrow>
     length xs < 2 \<or> (\<exists>c. \<forall>x\<in>set xs. x = c) \<or> (\<exists>c. \<forall>y\<in>set ys. y = c)"
  by (simp add: series_corr_def Let_def zero_variance_iff)

lemma series_corr_Some:
  assumes "series_corr xs ys = Some r"
  shows "0 < sum_products (deviations xs) (deviations xs)"
    and "0 < sum_products (deviations ys) (deviations ys)"
    and "sqrt (sum_products (deviations xs) (deviations xs)) *
         sqrt (sum_products (deviations ys) (deviations ys)) \<noteq> 0"
    and "r = sum_products (deviations xs) (deviations ys) /
           (sqrt (sum_products (deviations xs) (deviations xs)) *
            sqrt (sum_products (deviations ys) (deviations ys)))"
proof -
  from assms have nz: "sum_products (deviations xs) (deviations xs) \<noteq> 0"
    "sum_products (deviations ys) (deviations ys) \<noteq> 0"
    and r: "r = sum_products (deviations xs) (deviations ys) /
           (sqrt (sum_products (deviations xs) (deviations xs)) *
            sqrt (sum_products (deviations ys) (deviations ys)))"
    by (auto simp: series_corr_def Let_def split: if_splits)
  from nz sum_products_self_nonneg [of "deviations xs"]
  show a: "0 < sum_products (deviations xs) (deviations xs)" by simp
  from nz sum_products_self_nonneg [of "deviations ys"]
  show b: "0 < sum_products (deviations ys) (deviations ys)" by simp
  from a b show "sqrt (sum_products (deviations xs) (deviations xs)) *
         sqrt (sum_products (deviations ys) (deviations ys)) \<noteq> 0"
    by simp
  from r show "r = sum_products (deviations xs) (deviations ys) /
           (sqrt (sum_products (deviations xs) (deviations xs)) *
            sqrt (sum_products (deviations ys) (deviations ys)))" .
qed

lemma series_corr_bounds:
  assumes len: "length xs = length ys" and r: "series_corr xs ys = Some r"
  shows "- 1 \<le> r \<and> r \<le> 1"
proof -
  let ?A = "sum_products (deviations xs) (deviations xs)"
  let ?B = "sum_products (deviations ys) (deviations ys)"
  let ?C = "sum_products (deviations xs) (deviations ys)"
  note s = series_corr_Some [OF r]
  have "length (deviations xs) = length (deviations ys)"
    using len by (simp add: deviations_def)
  then have "?C * ?C \<le> ?A * ?B" by (rule cauchy_schwarz_products)
  then have "\<bar>?C\<bar>\<^sup>2 \<le> ?A * ?B" by (simp add: power2_eq_square)
  then have "\<bar>?C\<bar> \<le> sqrt (?A * ?B)" by (rule real_le_rsqrt)
  then have c: "\<bar>?C\<bar> \<le> sqrt ?A * sqrt ?B" by (simp add: real_sqrt_mult)
  have pos: "0 < sqrt ?A * sqrt ?B" using s(1,2) by simp
  have "\<bar>r\<bar> = \<bar>?C\<bar> / \<bar>sqrt ?A * sqrt ?B\<bar>"
    unfolding s(4) by (rule abs_divide)
  also have "\<dots> = \<bar>?C\<bar> / (sqrt ?A * sqrt ?B)"
    using pos by (simp only: abs_of_pos)
  also have "\<dots> \<le> 1" using c pos by (simp add: field_simps)
  finally show ?thesis by (simp add: abs_le_iff)
qed

lemma correlation_insight_none:
  "length df < 5 \<or> series_corr (map duration_mins df) (map rating df) = None \<Longrightarrow>
   correlation_insight df = []"
  by (auto simp: correlation_insight_def nan_gt_def nan_lt_def)

lemma series_corr_short: "length xs < 2 \<Longrightarrow> series_corr xs ys = None"
  by (simp add: series_corr_None_iff)

lemma corr_matrix_short:
  "length df < 2 \<Longrightarrow> corr_matrix df = replicate 7 (replicate 7 None)"
  by (simp add: corr_matrix_def heatmap_metrics_def series_corr_short numeral_eq_Suc)

lemma series_corr_self:
  assumes "series_corr xs xs = Some r"
  shows "r = 1"
  using series_corr_Some [OF assms] by simp

lemma corr_example: "series_corr [1, 2, 3] [3, 2, 1] = Some (- 1)"
  by (simp add: series_corr_def deviations_def sum_products_def)

section \<open>The page and the fetch\<close>

lemma dashboard_page_no_data:
  "fetch_all_sessions b db = Inr out \<Longrightarrow> returned out = [] \<Longrightarrow>
   dashboard_page b db =
     Inr \<lparr>db_after = db_after out,
          shown = shown out @
            [St_warning ''No data found. Please add some training sessions first.''],
          returned = None\<rparr>"
  by (simp add: dashboard_page_def)

lemma dashboard_page_data:
  "fetch_all_sessions b db = Inr out \<Longrightarrow> returned out \<noteq> [] \<Longrightarrow>
   dashboard_page b db =
     Inr \<lparr>db_after = db_after out, shown = shown out,
          returned = current_form (returned out)\<rparr>"
  by (simp add: dashboard_page_def)

lemma fetch_connection_message_iff:
  assumes "fetch_all_sessions b db = Inr out"
  shows "shown out = [St_error (cross_mark @ '' DB connection failed: '' @ e)] \<longleftrightarrow>
         b = Unreachable e"
proof (cases b)
  case (Unreachable e')
  with assms show ?thesis by (auto simp: fetch_Unreachable)
next
  case (Stmt_fails e')
  with assms show ?thesis by (auto simp: fetch_Stmt_fails mark_simps)
next
  case (Up t)
  with assms show ?thesis
    by (cases db) (auto simp: fetch_Up_no_table fetch_Up mark_simps)
qed

section \<open>The form metric\<close>

lemma sum_list_map_sort_key:
  "sum_list (map f (sort_key k xs)) = (sum_list (map f xs) :: int)"
proof -
  have "mset (map f (sort_key k xs)) = mset (map f xs)" by simp
  then have "sum_mset (mset (map f (sort_key k xs))) = sum_mset (mset (map f xs))" by simp
  then show ?thesis by (simp only: sum_mset_sum_list)
qed

lemma current_form_value:
  assumes "data \<noteq> []"
  shows "df_tail 5 (sort_key date data) \<noteq> [] \<and>
     current_form data =
       Some (Some (real_of_int (sum_list (map rating (df_tail 5 (sort_key date data)))) /
                   real (length (df_tail 5 (sort_key date data)))),
             Some (real_of_int (sum_list (map rating (df_tail 5 (sort_key date data)))) /
                   real (length (df_tail 5 (sort_key date data))) -
                   real_of_int (sum_list (map rating data)) / real (length data)))"
proof -
  let ?df = "sort_key date data"
  from assms have "length ?df \<noteq> 0" by simp
  then have ne: "?df \<noteq> []" by fastforce
  have "length (df_tail 5 ?df) = min 5 (length data)"
    by (simp add: df_tail_def)
  with assms have "length (df_tail 5 ?df) \<noteq> 0" by simp
  then have ne5: "df_tail 5 ?df \<noteq> []" by fastforce
  from ne ne5 assms show ?thesis
    by (simp add: current_form_def last_5_avg_def all_time_avg_def rating_diff_def
        series_mean_def Let_def sum_list_map_sort_key)
qed

lemma current_form_None_iff: "current_form data = None \<longleftrightarrow> data = []"
  by (simp add: current_form_def Let_def)

lemma six_form: "current_form six_fetched = Some (Some 4, Some (1 / 2))"
  by (simp add: six_fetched_def current_form_def last_5_avg_def all_time_avg_def rating_diff_def
      series_mean_def df_tail_def date_mk_row date_match rating_mk_row rating_match)

lemma three_page:
  "dashboard_page (Up 20)
     (Some \<lparr>rows = [mk_row 1 10 (match_session 1 3), mk_row 2 11 (match_session 2 4),
                   mk_row 3 12 (match_session 3 5)],
           next_id = 4\<rparr>) =
   Inr \<lparr>db_after =
          Some \<lparr>rows = [mk_row 1 10 (match_session 1 3), mk_row 2 11 (match_session 2 4),
                        mk_row 3 12 (match_session 3 5)],
                next_id = 4\<rparr>,
        shown = [], returned = Some (Some 4, Some 0)\<rparr>"
  by (simp add: dashboard_page_data [OF three_fetched] three_form)

section \<open>Buckets and groups\<close>




section \<open>Claims\<close>

text \<open>
  C1. The pair \<open>(date, session_type)\<close> is unique. When a session \<open>r1\<close> whose pair
  is not yet stored is saved and then a session \<open>r2\<close> with the same pair is saved, the
  first save appends the row of \<open>r1\<close>, the second shows the already-exists message
  and leaves the rows as they were (nothing merged, nothing overwritten), and the one row
  with that pair is the row of \<open>r1\<close>. In every database reached from the start by
  any sequence of calls under any backend conditions, no two rows share a pair.
\<close>

theorem unique_date_session_type:
  "(session_key r2 = session_key r1 \<and> session_key r1 \<notin> session_key ` set (rows tb) \<longrightarrow>
      (\<exists>out1 out2.
         save_training_session (Up t1) r1 (Some tb) = Inr out1 \<and>
         save_training_session (Up t2) r2 (db_after out1) = Inr out2 \<and>
         stored_rows (db_after out1) = rows tb @ [mk_row (next_id tb) t1 (insert_values r1)] \<and>
         stored_rows (db_after out2) = stored_rows (db_after out1) \<and>
         shown out2 =
           [St_error (cross_mark @ '' Session already exists for this date and type.'')] \<and>
         filter (\<lambda>r. session_key r = session_key r1) (stored_rows (db_after out2)) =
           [mk_row (next_id tb) t1 (insert_values r1)])) \<and>
   distinct (map session_key (stored_rows (db_run calls None)))"
proof (intro conjI impI)
  assume a: "session_key r2 = session_key r1 \<and> session_key r1 \<notin> session_key ` set (rows tb)"
  let ?row = "mk_row (next_id tb) t1 (insert_values r1)"
  let ?tb1 = "\<lparr>rows = rows tb @ [?row], next_id = next_id tb + 1\<rparr>"
  have fresh: "session_key r1 \<notin> session_key ` set (rows tb)" using a by simp
  have dup: "session_key r2 \<in> session_key ` set (rows ?tb1)"
    using a by (simp add: session_key_mk_row session_key_insert_values)
  have s1: "save_training_session (Up t1) r1 (Some tb) =
      Inr \<lparr>db_after = Some ?tb1,
           shown = [St_success (check_mark @ '' Session saved successfully.'')],
           returned = ()\<rparr>"
    by (rule save_Up_fresh [OF fresh])
  have s2: "save_training_session (Up t2) r2 (Some ?tb1) =
      Inr \<lparr>db_after = Some (?tb1\<lparr>next_id := next_id ?tb1 + 1\<rparr>),
           shown = [St_error (cross_mark @ '' Session already exists for this date and type.'')],
           returned = ()\<rparr>"
    by (rule save_Up_duplicate [OF dup])
  have f: "filter (\<lambda>r. session_key r = session_key r1) (rows tb @ [?row]) = [?row]"
    using fresh by (simp add: filter_key_fresh session_key_mk_row session_key_insert_values)
  show "\<exists>out1 out2.
         save_training_session (Up t1) r1 (Some tb) = Inr out1 \<and>
         save_training_session (Up t2) r2 (db_after out1) = Inr out2 \<and>
         stored_rows (db_after out1) = rows tb @ [?row] \<and>
         stored_rows (db_after out2) = stored_rows (db_after out1) \<and>
         shown out2 =
           [St_error (cross_mark @ '' Session already exists for this date and type.'')] \<and>
         filter (\<lambda>r. session_key r = session_key r1) (stored_rows (db_after out2)) = [?row]"
    using s1 s2 f by (simp add: stored_rows_simps)
next
  have "constraints_hold (db_run calls None)"
    by (rule constraints_hold_run [OF constraints_hold_None])
  then show "distinct (map session_key (stored_rows (db_run calls None)))"
    by (simp add: constraints_hold_def)
qed

text \<open>
  Two Match sessions on the same date, saved into an empty table: the second is refused and
  the one row stored is the first.
\<close>

theorem unique_date_session_type_witness:
  "\<exists>out1 out2.
     save_training_session (Up 10) (match_session 1 3) (Some \<lparr>rows = [], next_id = 1\<rparr>) = Inr out1 \<and>
     save_training_session (Up 11) (match_session 1 5) (db_after out1) = Inr out2 \<and>
     stored_rows (db_after out1) = [mk_row 1 10 (match_session 1 3)] \<and>
     stored_rows (db_after out2) = [mk_row 1 10 (match_session 1 3)]"
proof -
  have k: "session_key (match_session 1 5) = session_key (match_session 1 3) \<and>
      session_key (match_session 1 3) \<notin> session_key ` set (rows \<lparr>rows = [], next_id = 1\<rparr>)"
    by (simp add: session_key_def match_session_def)
  have v: "insert_values (match_session 1 3) = match_session 1 3"
    by (simp add: insert_values_def match_session_def)
  from unique_date_session_type
    [where ?r1.0 = "match_session 1 3" and ?r2.0 = "match_session 1 5"
       and tb = "\<lparr>rows = [], next_id = 1\<rparr>" and ?t1.0 = 10 and ?t2.0 = 11 and calls = "[]"] k
  obtain out1 out2 where
    "save_training_session (Up 10) (match_session 1 3) (Some \<lparr>rows = [], next_id = 1\<rparr>) = Inr out1"
    "save_training_session (Up 11) (match_session 1 5) (db_after out1) = Inr out2"
    "stored_rows (db_after out1) = [] @ [mk_row 1 10 (insert_values (match_session 1 3))]"
    "stored_rows (db_after out2) = stored_rows (db_after out1)"
    by auto
  with v show ?thesis by auto
qed

text \<open>
  C2, as the code has it. \<open>save_training_session\<close> never raises and hands nothing
  back to its caller (it returns \<open>None\<close> in every case); it reports by showing
  exactly one message. The success message goes with one new row appended; the
  already-exists message goes with a stored pair and unchanged rows (zero rows affected,
  no error raised); the connection-failed message and the error-saving message go with an
  unchanged database. The four messages differ from one another.
\<close>

theorem save_reports_by_message:
  "(\<exists>out. save_training_session b s db = Inr out \<and> returned out = () \<and>
      (shown out = [St_success (check_mark @ '' Session saved successfully.'')] \<and>
         (\<exists>t tb. b = Up t \<and> db = Some tb \<and>
            session_key s \<notin> session_key ` set (rows tb) \<and>
            stored_rows (db_after out) =
              stored_rows db @ [mk_row (next_id tb) t (insert_values s)])
       \<or> shown out =
            [St_error (cross_mark @ '' Session already exists for this date and type.'')] \<and>
         (\<exists>t tb. b = Up t \<and> db = Some tb \<and> session_key s \<in> session_key ` set (rows tb)) \<and>
         stored_rows (db_after out) = stored_rows db
       \<or> (\<exists>e. shown out = [St_error (cross_mark @ '' DB connection failed: '' @ e)] \<and>
              b = Unreachable e) \<and>
         db_after out = db
       \<or> (\<exists>e. shown out = [St_error (cross_mark @ '' Error saving session: '' @ e)] \<and>
              (b = Stmt_fails e \<or> (\<exists>t. b = Up t) \<and> db = None \<and> e = undefined_table)) \<and>
         db_after out = db)) \<and>
   St_success (check_mark @ '' Session saved successfully.'') \<noteq> St_error m \<and>
   cross_mark @ '' Session already exists for this date and type.'' \<noteq>
     cross_mark @ '' DB connection failed: '' @ e1 \<and>
   cross_mark @ '' Session already exists for this date and type.'' \<noteq>
     cross_mark @ '' Error saving session: '' @ e2 \<and>
   cross_mark @ '' DB connection failed: '' @ e1 \<noteq> cross_mark @ '' Error saving session: '' @ e2"
proof -
  have msgs: "St_success (check_mark @ '' Session saved successfully.'') \<noteq> St_error m \<and>
   cross_mark @ '' Session already exists for this date and type.'' \<noteq>
     cross_mark @ '' DB connection failed: '' @ e1 \<and>
   cross_mark @ '' Session already exists for this date and type.'' \<noteq>
     cross_mark @ '' Error saving session: '' @ e2 \<and>
   cross_mark @ '' DB connection failed: '' @ e1 \<noteq> cross_mark @ '' Error saving session: '' @ e2"
    by (simp add: mark_simps)
  have main: "\<exists>out. save_training_session b s db = Inr out \<and> returned out = () \<and>
      (shown out = [St_success (check_mark @ '' Session saved successfully.'')] \<and>
         (\<exists>t tb. b = Up t \<and> db = Some tb \<and>
            session_key s \<notin> session_key ` set (rows tb) \<and>
            stored_rows (db_after out) =
              stored_rows db @ [mk_row (next_id tb) t (insert_values s)])
       \<or> shown out =
            [St_error (cross_mark @ '' Session already exists for this date and type.'')] \<and>
         (\<exists>t tb. b = Up t \<and> db = Some tb \<and> session_key s \<in> session_key ` set (rows tb)) \<and>
         stored_rows (db_after out) = stored_rows db
       \<or> (\<exists>e. shown out = [St_error (cross_mark @ '' DB connection failed: '' @ e)] \<and>
              b = Unreachable e) \<and>
         db_after out = db
       \<or> (\<exists>e. shown out = [St_error (cross_mark @ '' Error saving session: '' @ e)] \<and>
              (b = Stmt_fails e \<or> (\<exists>t. b = Up t) \<and> db = None \<and> e = undefined_table)) \<and>
         db_after out = db)"
  proof (cases b)
    case (Unreachable e)
    then show ?thesis by (simp add: save_Unreachable)
  next
    case (Stmt_fails e)
    then show ?thesis by (simp add: save_Stmt_fails)
  next
    case (Up t)
    show ?thesis
    proof (cases db)
      case None
      with Up show ?thesis by (simp add: save_Up_no_table)
    next
      case (Some tb)
      show ?thesis
      proof (cases "session_key s \<in> session_key ` set (rows tb)")
        case True
        with Up Some show ?thesis
          by (simp add: save_Up_duplicate [OF True] stored_rows_simps)
      next
        case False
        with Up Some show ?thesis
          by (simp add: save_Up_fresh [OF False] stored_rows_simps)
      qed
    qed
  qed
  from main msgs show ?thesis by blast
qed

text \<open>
  A duplicate of a stored session: the already-exists message, and the rows are unchanged.
\<close>

theorem save_reports_by_message_witness:
  "\<exists>out. save_training_session (Up 11) (match_session 1 5)
            (Some \<lparr>rows = [mk_row 1 10 (match_session 1 3)], next_id = 2\<rparr>) = Inr out \<and>
     shown out = [St_error (cross_mark @ '' Session already exists for this date and type.'')] \<and>
     stored_rows (db_after out) = [mk_row 1 10 (match_session 1 3)]"
proof -
  let ?db = "Some \<lparr>rows = [mk_row 1 10 (match_session 1 3)], next_id = 2\<rparr>"
  have dup: "session_key (match_session 1 5) \<in>
      session_key ` set (rows \<lparr>rows = [mk_row 1 10 (match_session 1 3)], next_id = 2\<rparr>)"
    by (simp add: session_key_mk_row session_key_match)
  from save_reports_by_message
    [where b = "Up 11" and s = "match_session 1 5" and db = ?db
       and m = "[]" and ?e1.0 = "[]" and ?e2.0 = "[]"]
  obtain out where out: "save_training_session (Up 11) (match_session 1 5) ?db = Inr out"
    and cases: "shown out = [St_success (check_mark @ '' Session saved successfully.'')] \<and>
         (\<exists>t tb. Up 11 = Up t \<and> ?db = Some tb \<and>
            session_key (match_session 1 5) \<notin> session_key ` set (rows tb) \<and>
            stored_rows (db_after out) =
              stored_rows ?db @ [mk_row (next_id tb) t (insert_values (match_session 1 5))])
       \<or> shown out =
            [St_error (cross_mark @ '' Session already exists for this date and type.'')] \<and>
         (\<exists>t tb. Up 11 = Up t \<and> ?db = Some tb \<and>
            session_key (match_session 1 5) \<in> session_key ` set (rows tb)) \<and>
         stored_rows (db_after out) = stored_rows ?db
       \<or> (\<exists>e. shown out = [St_error (cross_mark @ '' DB connection failed: '' @ e)] \<and>
              Up 11 = Unreachable e) \<and>
         db_after out = ?db
       \<or> (\<exists>e. shown out = [St_error (cross_mark @ '' Error saving session: '' @ e)] \<and>
              (Up 11 = Stmt_fails e \<or> (\<exists>t. Up 11 = Up t) \<and> ?db = None \<and> e = undefined_table)) \<and>
         db_after out = ?db"
    by blast
  from cases dup have "shown out =
      [St_error (cross_mark @ '' Session already exists for this date and type.'')] \<and>
      stored_rows (db_after out) = stored_rows ?db"
    by auto
  with out show ?thesis by (simp add: stored_rows_simps)
qed

text \<open>
  C2 as stated fails: a first save and a duplicate save return the same value to the
  caller, which therefore cannot tell them apart; tab 1 goes on to show its own success
  message after the duplicate was refused.
\<close>

theorem save_caller_sees_no_difference:
  "save_training_session (Up 10) (match_session 1 3) (Some \<lparr>rows = [], next_id = 1\<rparr>) =
     Inr \<lparr>db_after = Some \<lparr>rows = [mk_row 1 10 (match_session 1 3)], next_id = 2\<rparr>,
          shown = [St_success (check_mark @ '' Session saved successfully.'')],
          returned = ()\<rparr> \<and>
   save_training_session (Up 11) (match_session 1 3)
       (Some \<lparr>rows = [mk_row 1 10 (match_session 1 3)], next_id = 2\<rparr>) =
     Inr \<lparr>db_after = Some \<lparr>rows = [mk_row 1 10 (match_session 1 3)], next_id = 3\<rparr>,
          shown = [St_error (cross_mark @ '' Session already exists for this date and type.'')],
          returned = ()\<rparr> \<and>
   tab1_add_session (Up 11) (match_widgets 1 3)
       (Some \<lparr>rows = [mk_row 1 10 (match_session 1 3)], next_id = 2\<rparr>) =
     Inr \<lparr>db_after = Some \<lparr>rows = [mk_row 1 10 (match_session 1 3)], next_id = 3\<rparr>,
          shown = [St_success (''Training Session Saved Successfully! '' @ check_mark),
                   St_error (cross_mark @ '' Session already exists for this date and type.''),
                   St_success (check_mark @ '' Training Session Saved Successfully!'')],
          returned = ()\<rparr>"
proof -
  have a: "save_training_session (Up 10) (match_session 1 3) (Some \<lparr>rows = [], next_id = 1\<rparr>) =
     Inr \<lparr>db_after = Some \<lparr>rows = [mk_row 1 10 (match_session 1 3)], next_id = 2\<rparr>,
          shown = [St_success (check_mark @ '' Session saved successfully.'')],
          returned = ()\<rparr>"
    by (simp add: save_Up_fresh insert_values_match)
  have b: "save_training_session (Up 11) (match_session 1 3)
       (Some \<lparr>rows = [mk_row 1 10 (match_session 1 3)], next_id = 2\<rparr>) =
     Inr \<lparr>db_after = Some \<lparr>rows = [mk_row 1 10 (match_session 1 3)], next_id = 3\<rparr>,
          shown = [St_error (cross_mark @ '' Session already exists for this date and type.'')],
          returned = ()\<rparr>"
    by (simp add: save_Up_duplicate session_key_mk_row)
  have c: "tab1_add_session (Up 11) (match_widgets 1 3)
       (Some \<lparr>rows = [mk_row 1 10 (match_session 1 3)], next_id = 2\<rparr>) =
     Inr \<lparr>db_after = Some \<lparr>rows = [mk_row 1 10 (match_session 1 3)], next_id = 3\<rparr>,
          shown = [St_success (''Training Session Saved Successfully! '' @ check_mark),
                   St_error (cross_mark @ '' Session already exists for this date and type.''),
                   St_success (check_mark @ '' Training Session Saved Successfully!'')],
          returned = ()\<rparr>"
    unfolding tab1_match_widgets b by simp
  from a b c show ?thesis by blast
qed

text \<open>
  C3. Fetching from an empty table returns the empty list and shows no error. When
  sessions with pairwise different \<open>(date, session_type)\<close> pairs are saved into an
  empty table, each under a reachable backend, a following fetch returns as many rows as
  sessions, shows no message, is ordered by date descending, and its rows carry exactly
  the values bound at the inserts: the sessions themselves whenever no position is the
  string \<open>"None"\<close> (which is stored as null).
\<close>

theorem fetch_all_after_saves:
  "fetch_all_sessions (Up t) (Some \<lparr>rows = [], next_id = n\<rparr>) =
     Inr \<lparr>db_after = Some \<lparr>rows = [], next_id = n\<rparr>, shown = [], returned = []\<rparr> \<and>
   (distinct (map session_key ss) \<and> length ts = length ss \<longrightarrow>
      (\<exists>out. fetch_all_sessions (Up t)
               (db_run (zip (map Up ts) (map Save ss)) (Some \<lparr>rows = [], next_id = n\<rparr>)) =
               Inr out \<and>
         shown out = [] \<and>
         length (returned out) = length ss \<and>
         mset (map row_values (returned out)) = mset (map insert_values ss) \<and>
         (list_all (\<lambda>s. position s \<noteq> Some ''None'') ss \<longrightarrow>
            mset (map row_values (returned out)) = mset ss) \<and>
         sorted_wrt (\<lambda>a b. date b \<le> date a) (returned out)))"
proof (intro conjI impI)
  show "fetch_all_sessions (Up t) (Some \<lparr>rows = [], next_id = n\<rparr>) =
     Inr \<lparr>db_after = Some \<lparr>rows = [], next_id = n\<rparr>, shown = [], returned = []\<rparr>"
    by (simp add: fetch_Up)
next
  assume a: "distinct (map session_key ss) \<and> length ts = length ss"
  let ?db = "db_run (zip (map Up ts) (map Save ss)) (Some \<lparr>rows = [], next_id = n\<rparr>)"
  from a run_saves [of ss ts "\<lparr>rows = [], next_id = n\<rparr>"] obtain tb' where
    run: "?db = Some tb'" and vals: "map row_values (rows tb') = map insert_values ss"
    by auto
  let ?out = "\<lparr>db_after = Some tb', shown = [],
              returned = sort_key (\<lambda>r. - date r) (rows tb')\<rparr>"
  have f: "fetch_all_sessions (Up t) ?db = Inr ?out"
    by (simp add: run fetch_Up)
  have len: "length (rows tb') = length ss"
    using arg_cong [OF vals, of length] by simp
  have ms: "mset (map row_values (sort_key (\<lambda>r. - date r) (rows tb'))) =
      mset (map insert_values ss)"
    using arg_cong [OF vals, of mset] by simp
  have "list_all (\<lambda>s. position s \<noteq> Some ''None'') ss \<longrightarrow> map insert_values ss = ss"
    by (induction ss) (simp_all add: insert_values_id)
  then have same: "list_all (\<lambda>s. position s \<noteq> Some ''None'') ss \<longrightarrow>
      image_mset insert_values (mset ss) = mset ss"
    by (metis mset_map)
  have "shown ?out = [] \<and>
         length (returned ?out) = length ss \<and>
         mset (map row_values (returned ?out)) = mset (map insert_values ss) \<and>
         (list_all (\<lambda>s. position s \<noteq> Some ''None'') ss \<longrightarrow>
            mset (map row_values (returned ?out)) = mset ss) \<and>
         sorted_wrt (\<lambda>a b. date b \<le> date a) (returned ?out)"
    using len ms same sorted_desc_fetch [of "rows tb'"] by auto
  with f show "\<exists>out. fetch_all_sessions (Up t) ?db = Inr out \<and>
         shown out = [] \<and>
         length (returned out) = length ss \<and>
         mset (map row_values (returned out)) = mset (map insert_values ss) \<and>
         (list_all (\<lambda>s. position s \<noteq> Some ''None'') ss \<longrightarrow>
            mset (map row_values (returned out)) = mset ss) \<and>
         sorted_wrt (\<lambda>a b. date b \<le> date a) (returned out)"
    by blast
qed

text \<open>
  Three Match sessions on three dates, saved into an empty table and fetched.
\<close>

theorem fetch_all_after_saves_witness:
  "\<exists>out. fetch_all_sessions (Up 20)
          (db_run (zip (map Up [10, 11, 12])
                       (map Save [match_session 1 3, match_session 2 4, match_session 3 5]))
                  (Some \<lparr>rows = [], next_id = 1\<rparr>)) = Inr out \<and>
     length (returned out) = 3 \<and>
     mset (map row_values (returned out)) =
       {#match_session 1 3, match_session 2 4, match_session 3 5#} \<and>
     sorted_wrt (\<lambda>a b. date b \<le> date a) (returned out)"
proof -
  let ?ss = "[match_session 1 3, match_session 2 4, match_session 3 5]"
  have h: "distinct (map session_key ?ss) \<and> length [10, 11, 12 :: int] = length ?ss"
    by (simp add: session_key_match)
  have p: "list_all (\<lambda>s. position s \<noteq> Some ''None'') ?ss"
    by (simp add: match_session_def)
  from fetch_all_after_saves [where t = 20 and n = 1 and ss = ?ss and ts = "[10, 11, 12]"] h
  obtain out where
    "fetch_all_sessions (Up 20)
       (db_run (zip (map Up [10, 11, 12]) (map Save ?ss)) (Some \<lparr>rows = [], next_id = 1\<rparr>)) =
       Inr out"
    "length (returned out) = length ?ss"
    "list_all (\<lambda>s. position s \<noteq> Some ''None'') ?ss \<longrightarrow>
       mset (map row_values (returned out)) = mset ?ss"
    "sorted_wrt (\<lambda>a b. date b \<le> date a) (returned out)"
    by blast
  with p show ?thesis by (auto simp: add.commute)
qed

text \<open>
  C4. \<open>delete_session\<close> never raises, and each call has exactly one of three
  shapes: it returns \<open>True\<close> with no message, a row with that id existed and the
  rows with that id are gone; or it returns \<open>False\<close> with the warning
  \<open>Session not found.\<close>, no row had that id and the database is as it was; or it
  returns \<open>False\<close> with an error message (connection failed, or the statement
  raised) and the database is as it was. For a row that the store holds after any
  sequence of calls (its id was given by the save that stored it), deleting by its id
  removes exactly that row, a following fetch returns the other rows without it, and
  deleting the same id again reports not found and changes nothing.
\<close>

theorem delete_session_contract:
  "(\<exists>out. delete_session b i db = Inr out \<and>
      (returned out = True \<and> shown out = [] \<and> i \<in> row_id ` set (stored_rows db) \<and>
         stored_rows (db_after out) = filter (\<lambda>r. row_id r \<noteq> i) (stored_rows db)
       \<or> returned out = False \<and> shown out = [St_warning ''Session not found.''] \<and>
         i \<notin> row_id ` set (stored_rows db) \<and> db_after out = db
       \<or> returned out = False \<and>
         (\<exists>e. shown out = [St_error (cross_mark @ '' DB connection failed: '' @ e)] \<or>
              shown out = [St_error (cross_mark @ '' Error deleting session: '' @ e)]) \<and>
         db_after out = db)) \<and>
   (db_run calls None = Some tb \<and> r \<in> set (rows tb) \<longrightarrow>
      (\<exists>out fetched.
         delete_session (Up t) (row_id r) (Some tb) = Inr out \<and>
         returned out = True \<and> shown out = [] \<and>
         stored_rows (db_after out) = remove1 r (rows tb) \<and>
         fetch_all_sessions (Up t') (db_after out) = Inr fetched \<and>
         r \<notin> set (returned fetched) \<and>
         mset (returned fetched) = mset (rows tb) - {#r#} \<and>
         delete_session (Up t'') (row_id r) (db_after out) =
           Inr \<lparr>db_after = db_after out, shown = [St_warning ''Session not found.''],
                returned = False\<rparr>))"
proof (intro conjI impI)
  show "\<exists>out. delete_session b i db = Inr out \<and>
      (returned out = True \<and> shown out = [] \<and> i \<in> row_id ` set (stored_rows db) \<and>
         stored_rows (db_after out) = filter (\<lambda>r. row_id r \<noteq> i) (stored_rows db)
       \<or> returned out = False \<and> shown out = [St_warning ''Session not found.''] \<and>
         i \<notin> row_id ` set (stored_rows db) \<and> db_after out = db
       \<or> returned out = False \<and>
         (\<exists>e. shown out = [St_error (cross_mark @ '' DB connection failed: '' @ e)] \<or>
              shown out = [St_error (cross_mark @ '' Error deleting session: '' @ e)]) \<and>
         db_after out = db)"
    by (rule delete_shapes)
next
  assume a: "db_run calls None = Some tb \<and> r \<in> set (rows tb)"
  then have "constraints_hold (Some tb)" using reached_constraints [of calls] by simp
  from delete_stored_row [OF this, of r t t' t''] a
  show "\<exists>out fetched.
         delete_session (Up t) (row_id r) (Some tb) = Inr out \<and>
         returned out = True \<and> shown out = [] \<and>
         stored_rows (db_after out) = remove1 r (rows tb) \<and>
         fetch_all_sessions (Up t') (db_after out) = Inr fetched \<and>
         r \<notin> set (returned fetched) \<and>
         mset (returned fetched) = mset (rows tb) - {#r#} \<and>
         delete_session (Up t'') (row_id r) (db_after out) =
           Inr \<lparr>db_after = db_after out, shown = [St_warning ''Session not found.''],
                returned = False\<rparr>"
    by simp
qed

text \<open>
  A table is created, one session is saved and gets id 1; deleting id 1 empties the table,
  the fetch returns nothing, and deleting id 1 again reports not found.
\<close>

theorem delete_session_contract_witness:
  "db_run [(Up 0, Create_table), (Up 10, Save (match_session 1 3))] None =
     Some \<lparr>rows = [mk_row 1 10 (match_session 1 3)], next_id = 2\<rparr> \<and>
   (\<exists>out fetched.
      delete_session (Up 20) 1 (Some \<lparr>rows = [mk_row 1 10 (match_session 1 3)], next_id = 2\<rparr>)
        = Inr out \<and>
      returned out = True \<and> stored_rows (db_after out) = [] \<and>
      fetch_all_sessions (Up 21) (db_after out) = Inr fetched \<and> returned fetched = [] \<and>
      delete_session (Up 22) 1 (db_after out) =
        Inr \<lparr>db_after = db_after out, shown = [St_warning ''Session not found.''],
             returned = False\<rparr>)"
proof -
  let ?r = "mk_row 1 10 (match_session 1 3)"
  let ?tb = "\<lparr>rows = [?r], next_id = 2\<rparr>"
  have h: "db_run [(Up 0, Create_table), (Up 10, Save (match_session 1 3))] None = Some ?tb \<and>
      ?r \<in> set (rows ?tb)"
    by (simp add: run_create_save del: db_run.simps)
  from delete_session_contract
    [where b = "Up 20" and i = 1 and db = None
       and calls = "[(Up 0, Create_table), (Up 10, Save (match_session 1 3))]"
       and tb = ?tb and r = ?r and t = 20 and t' = 21 and t'' = 22] h
  obtain out fetched where
    "delete_session (Up 20) (row_id ?r) (Some ?tb) = Inr out"
    "returned out = True"
    "stored_rows (db_after out) = remove1 ?r (rows ?tb)"
    "fetch_all_sessions (Up 21) (db_after out) = Inr fetched"
    "mset (returned fetched) = mset (rows ?tb) - {#?r#}"
    "delete_session (Up 22) (row_id ?r) (db_after out) =
        Inr \<lparr>db_after = db_after out, shown = [St_warning ''Session not found.''],
             returned = False\<rparr>"
    by blast
  then show ?thesis using h by (auto simp: row_id_mk_row)
qed

text \<open>
  C5, as the code has it. Run against a reachable backend, \<open>create_table\<close> leaves a
  table in place (the existing one with its rows, or a new empty one); running it again
  gives the same outcome, and no later run that returns changes the database. Against an
  unreachable backend it does not fail: it shows the connection-failed message, returns
  and leaves the database as it was. It raises only when the statement itself raises.
  Saving, fetching and deleting never raise.
\<close>

theorem create_table_idempotent_not_fatal:
  "(\<exists>out. create_table (Up t) db = Inr out \<and>
          db_after out = Some (case db of None \<Rightarrow> \<lparr>rows = [], next_id = 1\<rparr> | Some tb \<Rightarrow> tb) \<and>
          create_table (Up t') (db_after out) = Inr out \<and>
          (\<forall>b' out'. create_table b' (db_after out) = Inr out' \<longrightarrow>
             db_after out' = db_after out)) \<and>
   create_table (Unreachable e) db =
     Inr \<lparr>db_after = db,
          shown = [St_error (cross_mark @ '' DB connection failed: '' @ e)],
          returned = ()\<rparr> \<and>
   (create_table b db = Inl x \<longleftrightarrow> (\<exists>e'. b = Stmt_fails e' \<and> x = Exn e')) \<and>
   (\<exists>out. save_training_session b s db = Inr out) \<and>
   (\<exists>out. fetch_all_sessions b db = Inr out) \<and>
   (\<exists>out. delete_session b i db = Inr out)"
proof -
  have first: "\<exists>out. create_table (Up t) db = Inr out \<and>
          db_after out = Some (case db of None \<Rightarrow> \<lparr>rows = [], next_id = 1\<rparr> | Some tb \<Rightarrow> tb) \<and>
          create_table (Up t') (db_after out) = Inr out \<and>
          (\<forall>b' out'. create_table b' (db_after out) = Inr out' \<longrightarrow>
             db_after out' = db_after out)"
  proof -
    obtain out where out: "create_table (Up t) db = Inr out"
      by (simp add: create_Up)
    have a: "db_after out = Some (case db of None \<Rightarrow> \<lparr>rows = [], next_id = 1\<rparr> | Some tb \<Rightarrow> tb)"
      using out by (cases db) (auto simp: create_Up)
    have b: "create_table (Up t') (db_after out) = Inr out"
      using out by (cases db) (auto simp: create_Up)
    from out a b create_again [OF out] show ?thesis by blast
  qed
  show ?thesis
    using first create_Unreachable [of e db] create_raises_iff [of b db x]
      save_never_raises [of b s db] fetch_never_raises [of b db] delete_never_raises [of b i db]
    by blast
qed

text \<open>
  An existing table is kept, a missing one is created once and kept by the second run, and
  a failing statement raises.
\<close>

theorem create_table_idempotent_not_fatal_witness:
  "create_table (Up 5) (Some \<lparr>rows = [], next_id = 4\<rparr>) =
     Inr \<lparr>db_after = Some \<lparr>rows = [], next_id = 4\<rparr>,
          shown = [Printed (check_mark @ '' Table created or already exists.'')],
          returned = ()\<rparr> \<and>
   (\<exists>out. create_table (Up 0) None = Inr out \<and>
      db_after out = Some \<lparr>rows = [], next_id = 1\<rparr> \<and>
      create_table (Up 5) (db_after out) = Inr out) \<and>
   create_table (Stmt_fails ''permission denied'') None = Inl (Exn ''permission denied'')"
proof -
  have a: "create_table (Up 5) (Some \<lparr>rows = [], next_id = 4\<rparr>) =
     Inr \<lparr>db_after = Some \<lparr>rows = [], next_id = 4\<rparr>,
          shown = [Printed (check_mark @ '' Table created or already exists.'')],
          returned = ()\<rparr>"
    by (simp add: create_Up)
  from create_table_idempotent_not_fatal
    [where t = 0 and db = None and t' = 5 and e = "''x''"
       and b = "Stmt_fails ''permission denied''" and x = "Exn ''permission denied''"
       and s = "match_session 1 3" and i = 1]
  have b: "\<exists>out. create_table (Up 0) None = Inr out \<and>
      db_after out = Some \<lparr>rows = [], next_id = 1\<rparr> \<and>
      create_table (Up 5) (db_after out) = Inr out"
    and c: "create_table (Stmt_fails ''permission denied'') None = Inl (Exn ''permission denied'')"
    by auto
  from a b c show ?thesis by blast
qed

text \<open>
  C5 as stated fails: with the backend unreachable and no table yet, \<open>create_table\<close>
  returns normally, having shown the message, and the table is still missing.
\<close>

theorem create_table_unreachable_returns:
  "create_table (Unreachable ''connection refused'') None =
     Inr \<lparr>db_after = None,
          shown = [St_error (cross_mark @ '' DB connection failed: connection refused'')],
          returned = ()\<rparr>"
  by (simp add: create_Unreachable)

text \<open>
  C6, as the code has it. When the connection fails, \<open>fetch_all_sessions\<close> does not
  raise: it returns the empty list, which is also what an empty table gives, so the
  calling code is handed no sign of the failure. The failure is reported only by the
  connection-failed message shown to the user, and that message is shown in no other
  outcome of a fetch. The database is as it was, so any later fetch behaves as it would
  have without the failure. The page treats the failed fetch as no data: after the error
  it shows its no-data warning and computes nothing.
\<close>

theorem fetch_connection_failure_shown_not_returned:
  "(\<exists>out. fetch_all_sessions (Unreachable e) db = Inr out \<and>
      returned out = [] \<and>
      shown out = [St_error (cross_mark @ '' DB connection failed: '' @ e)] \<and>
      db_after out = db \<and>
      fetch_all_sessions b' (db_after out) = fetch_all_sessions b' db \<and>
      (\<exists>empty. fetch_all_sessions (Up t) (Some \<lparr>rows = [], next_id = n\<rparr>) = Inr empty \<and>
         shown empty = [] \<and> returned empty = returned out)) \<and>
   (fetch_all_sessions b db = Inr out' \<longrightarrow>
      (shown out' = [St_error (cross_mark @ '' DB connection failed: '' @ e)] \<longleftrightarrow>
       b = Unreachable e)) \<and>
   dashboard_page (Unreachable e) db =
     Inr \<lparr>db_after = db,
          shown = [St_error (cross_mark @ '' DB connection failed: '' @ e),
                   St_warning ''No data found. Please add some training sessions first.''],
          returned = None\<rparr>"
proof (intro conjI impI)
  show "\<exists>out. fetch_all_sessions (Unreachable e) db = Inr out \<and>
      returned out = [] \<and>
      shown out = [St_error (cross_mark @ '' DB connection failed: '' @ e)] \<and>
      db_after out = db \<and>
      fetch_all_sessions b' (db_after out) = fetch_all_sessions b' db \<and>
      (\<exists>empty. fetch_all_sessions (Up t) (Some \<lparr>rows = [], next_id = n\<rparr>) = Inr empty \<and>
         shown empty = [] \<and> returned empty = returned out)"
    by (simp add: fetch_Unreachable fetch_Up)
next
  assume "fetch_all_sessions b db = Inr out'"
  then show "shown out' = [St_error (cross_mark @ '' DB connection failed: '' @ e)] \<longleftrightarrow>
       b = Unreachable e"
    by (rule fetch_connection_message_iff)
next
  show "dashboard_page (Unreachable e) db =
     Inr \<lparr>db_after = db,
          shown = [St_error (cross_mark @ '' DB connection failed: '' @ e),
                   St_warning ''No data found. Please add some training sessions first.''],
          returned = None\<rparr>"
    by (simp add: dashboard_page_no_data [OF fetch_Unreachable])
qed

text \<open>
  A fetch whose statement raises shows a different message.
\<close>

theorem fetch_connection_failure_shown_not_returned_witness:
  "fetch_all_sessions (Stmt_fails ''timeout'') None =
     Inr \<lparr>db_after = None,
          shown = [St_error (cross_mark @ '' Error fetching data: timeout'')],
          returned = []\<rparr> \<and>
   [St_error (cross_mark @ '' Error fetching data: timeout'')] \<noteq>
     [St_error (cross_mark @ '' DB connection failed: timeout'')]"
proof -
  let ?out = "\<lparr>db_after = None,
          shown = [St_error (cross_mark @ '' Error fetching data: timeout'')],
          returned = ([] :: session_row list)\<rparr>"
  have h: "fetch_all_sessions (Stmt_fails ''timeout'') None = Inr ?out"
    by (simp add: fetch_Stmt_fails)
  from fetch_connection_failure_shown_not_returned
    [where b = "Stmt_fails ''timeout''" and db = None and out' = ?out and e = "''timeout''"
       and b' = "Up 0" and t = 0 and n = 1] h
  have "shown ?out = [St_error (cross_mark @ '' DB connection failed: '' @ ''timeout'')] \<longleftrightarrow>
      Stmt_fails ''timeout'' = Unreachable ''timeout''"
    by blast
  then have "[St_error (cross_mark @ '' Error fetching data: timeout'')] \<noteq>
     [St_error (cross_mark @ '' DB connection failed: timeout'')]"
    by simp
  with h show ?thesis by blast
qed

text \<open>
  C6 as stated fails: a failed fetch of a table that holds a row and a successful fetch of
  an empty table return the same value, so nothing is signalled to the caller.
\<close>

theorem fetch_failure_returns_like_empty_table:
  "fetch_all_sessions (Unreachable ''connection refused'')
     (Some \<lparr>rows = [mk_row 1 10 (match_session 1 3)], next_id = 2\<rparr>) =
     Inr \<lparr>db_after = Some \<lparr>rows = [mk_row 1 10 (match_session 1 3)], next_id = 2\<rparr>,
          shown = [St_error (cross_mark @ '' DB connection failed: connection refused'')],
          returned = []\<rparr> \<and>
   fetch_all_sessions (Up 20) (Some \<lparr>rows = [], next_id = 1\<rparr>) =
     Inr \<lparr>db_after = Some \<lparr>rows = [], next_id = 1\<rparr>, shown = [], returned = []\<rparr>"
  by (simp add: fetch_Unreachable fetch_Up)

text \<open>
  C7. The correlation of two columns is undefined exactly when there are fewer than 2
  records or one of the columns is constant (zero variance); it is then the undefined
  value, not a fault. Otherwise the divisor is not zero and the value is the Pearson
  coefficient, the sum of the products of the deviations over the product of the roots of
  the sums of their squares; for two columns of one frame it lies between -1 and 1, and a
  column correlates with itself at 1. On the page, fewer than five rows or an undefined
  correlation give no correlation insight, and on fewer than two rows the correlation of
  duration and rating and every entry of the heat map's matrix are undefined.
\<close>

theorem correlation_pearson_or_undefined:
  "(series_corr xs ys = None \<longleftrightarrow>
      length xs < 2 \<or> (\<exists>c. \<forall>x\<in>set xs. x = c) \<or> (\<exists>c. \<forall>y\<in>set ys. y = c)) \<and>
   (series_corr xs ys = Some r \<longrightarrow>
      sqrt (sum_products (deviations xs) (deviations xs)) *
        sqrt (sum_products (deviations ys) (deviations ys)) \<noteq> 0 \<and>
      r = sum_products (deviations xs) (deviations ys) /
            (sqrt (sum_products (deviations xs) (deviations xs)) *
             sqrt (sum_products (deviations ys) (deviations ys)))) \<and>
   (length xs = length ys \<and> series_corr xs ys = Some r \<longrightarrow> - 1 \<le> r \<and> r \<le> 1) \<and>
   (series_corr xs xs = Some r \<longrightarrow> r = 1) \<and>
   (length df < 5 \<or> series_corr (map duration_mins df) (map rating df) = None \<longrightarrow>
      correlation_insight df = []) \<and>
   (length df < 2 \<longrightarrow>
      series_corr (map duration_mins df) (map rating df) = None \<and>
      corr_matrix df = replicate 7 (replicate 7 None))"
proof (intro conjI impI)
  show "series_corr xs ys = None \<longleftrightarrow>
      length xs < 2 \<or> (\<exists>c. \<forall>x\<in>set xs. x = c) \<or> (\<exists>c. \<forall>y\<in>set ys. y = c)"
    by (rule series_corr_None_iff)
next
  assume "series_corr xs ys = Some r"
  then show "sqrt (sum_products (deviations xs) (deviations xs)) *
        sqrt (sum_products (deviations ys) (deviations ys)) \<noteq> 0"
    by (rule series_corr_Some(3))
next
  assume "series_corr xs ys = Some r"
  then show "r = sum_products (deviations xs) (deviations ys) /
            (sqrt (sum_products (deviations xs) (deviations xs)) *
             sqrt (sum_products (deviations ys) (deviations ys)))"
    by (rule series_corr_Some(4))
next
  assume a: "length xs = length ys \<and> series_corr xs ys = Some r"
  then have "- 1 \<le> r \<and> r \<le> 1" using series_corr_bounds [of xs ys r] by blast
  then show "- 1 \<le> r" and "r \<le> 1" by simp_all
next
  assume "series_corr xs xs = Some r"
  then show "r = 1" by (rule series_corr_self)
next
  assume "length df < 5 \<or> series_corr (map duration_mins df) (map rating df) = None"
  then show "correlation_insight df = []" by (rule correlation_insight_none)
next
  assume "length df < 2"
  then show "series_corr (map duration_mins df) (map rating df) = None"
    by (simp add: series_corr_short)
next
  assume "length df < 2"
  then show "corr_matrix df = replicate 7 (replicate 7 None)" by (rule corr_matrix_short)
qed

text \<open>
  One record, a constant column, and two columns in exact opposition.
\<close>

theorem correlation_pearson_or_undefined_witness:
  "series_corr [60] [3] = None \<and>
   series_corr [45, 60, 90] [4, 4, 4] = None \<and>
   series_corr [1, 2, 3] [3, 2, 1] = Some (- 1) \<and> - 1 \<le> (- 1 :: real) \<and>
   correlation_insight [mk_row 1 10 (match_session 1 3)] = [] \<and>
   corr_matrix [mk_row 1 10 (match_session 1 3)] = replicate 7 (replicate 7 None)"
proof -
  have a: "series_corr [60] [3] = None"
    using correlation_pearson_or_undefined
      [where xs = "[60]" and ys = "[3]" and r = 0 and df = "[]"]
    by simp
  have b: "series_corr [45, 60, 90] [4, 4, 4] = None"
  proof -
    have "\<exists>c. \<forall>y\<in>set [4, 4, 4 :: int]. y = c" by simp
    with correlation_pearson_or_undefined
      [where xs = "[45, 60, 90]" and ys = "[4, 4, 4]" and r = 0 and df = "[]"]
    show ?thesis by blast
  qed
  have c: "series_corr [1, 2, 3] [3, 2, 1] = Some (- 1)" by (rule corr_example)
  have l: "length [1, 2, 3 :: int] = length [3, 2, 1 :: int]" by simp
  note t = correlation_pearson_or_undefined
      [where xs = "[1, 2, 3]" and ys = "[3, 2, 1]" and r = "- 1"
         and df = "[mk_row 1 10 (match_session 1 3)]"]
  from t l c have d: "- 1 \<le> (- 1 :: real)" by blast
  have s: "length [mk_row 1 10 (match_session 1 3)] < 5"
    and s2: "length [mk_row 1 10 (match_session 1 3)] < 2" by simp_all
  from t s have e: "correlation_insight [mk_row 1 10 (match_session 1 3)] = []" by blast
  from t s2 have f: "corr_matrix [mk_row 1 10 (match_session 1 3)] = replicate 7 (replicate 7 None)"
    by blast
  from a b c d e f show ?thesis by blast
qed

text \<open>
  C8. The rows averaged by \<open>tail(n)\<close> of the date-ordered frame are the
  \<open>n\<close> most recent by date: the data splits into the window, of \<open>min n\<close> of the
  number of rows, and older rows, none dated after any row of the window. Whenever there
  is data, the page's rolling average is the sum of the ratings over that window for
  \<open>n = 5\<close> divided by the size of the window, and the form delta is that average
  minus the sum of all ratings divided by the number of rows. The page has no metric
  exactly when there is no data: on an empty table it shows its no-data warning and
  computes nothing, neither zero nor an error. Three Match sessions rated 3, 4, 5 on
  consecutive dates, saved and fetched, come back latest first with rolling average 4 and
  form delta 0; six rows rated 1 to 6 by date give rolling average 4 and form delta 1/2.
\<close>

theorem rolling_average_of_ratings:
  "(\<exists>older. mset data = mset (older @ df_tail n (sort_key date data)) \<and>
      length (df_tail n (sort_key date data)) = min n (length data) \<and>
      (\<forall>r\<in>set older. \<forall>w\<in>set (df_tail n (sort_key date data)). date r \<le> date w)) \<and>
   (data \<noteq> [] \<longrightarrow>
      df_tail 5 (sort_key date data) \<noteq> [] \<and>
      current_form data =
        Some (Some (real_of_int (sum_list (map rating (df_tail 5 (sort_key date data)))) /
                    real (length (df_tail 5 (sort_key date data)))),
              Some (real_of_int (sum_list (map rating (df_tail 5 (sort_key date data)))) /
                    real (length (df_tail 5 (sort_key date data))) -
                    real_of_int (sum_list (map rating data)) / real (length data)))) \<and>
   (current_form data = None \<longleftrightarrow> data = []) \<and>
   dashboard_page (Up t) (Some \<lparr>rows = [], next_id = k\<rparr>) =
     Inr \<lparr>db_after = Some \<lparr>rows = [], next_id = k\<rparr>,
          shown = [St_warning ''No data found. Please add some training sessions first.''],
          returned = None\<rparr> \<and>
   (\<exists>out page. fetch_all_sessions (Up 20)
            (db_run (zip (map Up [10, 11, 12])
                         (map Save [match_session 1 3, match_session 2 4, match_session 3 5]))
                    (Some \<lparr>rows = [], next_id = 1\<rparr>)) = Inr out \<and>
      map date (returned out) = [3, 2, 1] \<and>
      current_form (returned out) = Some (Some 4, Some 0) \<and>
      dashboard_page (Up 20)
            (db_run (zip (map Up [10, 11, 12])
                         (map Save [match_session 1 3, match_session 2 4, match_session 3 5]))
                    (Some \<lparr>rows = [], next_id = 1\<rparr>)) = Inr page \<and>
      shown page = [] \<and> returned page = Some (Some 4, Some 0)) \<and>
   current_form six_fetched = Some (Some 4, Some (1 / 2))"
proof -
  have a: "\<exists>older. mset data = mset (older @ df_tail n (sort_key date data)) \<and>
      length (df_tail n (sort_key date data)) = min n (length data) \<and>
      (\<forall>r\<in>set older. \<forall>w\<in>set (df_tail n (sort_key date data)). date r \<le> date w)"
    by (rule df_tail_window)
  have b: "data \<noteq> [] \<longrightarrow>
      df_tail 5 (sort_key date data) \<noteq> [] \<and>
      current_form data =
        Some (Some (real_of_int (sum_list (map rating (df_tail 5 (sort_key date data)))) /
                    real (length (df_tail 5 (sort_key date data)))),
              Some (real_of_int (sum_list (map rating (df_tail 5 (sort_key date data)))) /
                    real (length (df_tail 5 (sort_key date data))) -
                    real_of_int (sum_list (map rating data)) / real (length data)))"
    using current_form_value by blast
  have c: "current_form data = None \<longleftrightarrow> data = []"
    by (rule current_form_None_iff)
  have d: "dashboard_page (Up t) (Some \<lparr>rows = [], next_id = k\<rparr>) =
     Inr \<lparr>db_after = Some \<lparr>rows = [], next_id = k\<rparr>,
          shown = [St_warning ''No data found. Please add some training sessions first.''],
          returned = None\<rparr>"
    by (simp add: dashboard_page_no_data [OF fetch_Up])
  have e: "\<exists>out page. fetch_all_sessions (Up 20)
            (db_run (zip (map Up [10, 11, 12])
                         (map Save [match_session 1 3, match_session 2 4, match_session 3 5]))
                    (Some \<lparr>rows = [], next_id = 1\<rparr>)) = Inr out \<and>
      map date (returned out) = [3, 2, 1] \<and>
      current_form (returned out) = Some (Some 4, Some 0) \<and>
      dashboard_page (Up 20)
            (db_run (zip (map Up [10, 11, 12])
                         (map Save [match_session 1 3, match_session 2 4, match_session 3 5]))
                    (Some \<lparr>rows = [], next_id = 1\<rparr>)) = Inr page \<and>
      shown page = [] \<and> returned page = Some (Some 4, Some 0)"
    unfolding three_saved three_fetched three_page
    by (simp add: three_form date_mk_row date_match)
  from a b c d e six_form show ?thesis by blast
qed

text \<open>
  On the six rows the window holds the ratings 2 to 6, and the metric is 20/5 and
  20/5 - 21/6.
\<close>

theorem rolling_average_of_ratings_witness:
  "six_fetched \<noteq> [] \<and>
   length (df_tail 5 (sort_key date six_fetched)) = 5 \<and>
   map rating (df_tail 5 (sort_key date six_fetched)) = [2, 3, 4, 5, 6] \<and>
   current_form six_fetched = Some (Some (20 / 5), Some (20 / 5 - 21 / 6))"
proof -
  have h: "six_fetched \<noteq> []" by (simp add: six_fetched_def)
  have w: "map rating (df_tail 5 (sort_key date six_fetched)) = [2, 3, 4, 5, 6]"
    by (simp add: six_fetched_def df_tail_def date_mk_row date_match rating_mk_row rating_match)
  have r: "map rating six_fetched = [6, 5, 4, 3, 2, 1]"
    by (simp add: six_fetched_def rating_mk_row rating_match)
  note t = rolling_average_of_ratings [where data = six_fetched and n = 5]
  from t have "length (df_tail 5 (sort_key date six_fetched)) = min 5 (length six_fetched)"
    by blast
  then have l: "length (df_tail 5 (sort_key date six_fetched)) = 5"
    by (simp add: six_fetched_def)
  from t h have "current_form six_fetched =
        Some (Some (real_of_int (sum_list (map rating (df_tail 5 (sort_key date six_fetched)))) /
                    real (length (df_tail 5 (sort_key date six_fetched)))),
              Some (real_of_int (sum_list (map rating (df_tail 5 (sort_key date six_fetched)))) /
                    real (length (df_tail 5 (sort_key date six_fetched))) -
                    real_of_int (sum_list (map rating six_fetched)) / real (length six_fetched)))"
    by blast
  then have "current_form six_fetched = Some (Some (20 / 5), Some (20 / 5 - 21 / 6))"
    unfolding w r l by (simp add: six_fetched_def)
  with h l w show ?thesis by blast
qed




text \<open>
  C10. When the form's session type is Physical Training and Save is pressed, the
  dictionary the form returns and the session built from it have all six counting stats
  equal to 0, whatever the widgets hold. Hence in every database reached from the start
  by calls of the application (table creation, form submissions, deletions, under any
  backend conditions) every stored Physical Training row has all six counting stats 0.
\<close>

theorem physical_training_counting_stats_zero:
  "(w_session_type w = ''Physical Training'' \<and> w_save_clicked w \<longrightarrow>
      (\<exists>fd msgs. training_form w = (Some fd, msgs) \<and>
         fd_session_type fd = ''Physical Training'' \<and>
         [fd_goals fd, fd_assists fd, fd_tackles fd, fd_passes_completed fd, fd_crosses fd,
          fd_shots_on_target fd] = [0, 0, 0, 0, 0, 0] \<and>
         session_type (build_training_session fd) = ''Physical Training'' \<and>
         counting_stats (build_training_session fd) = [0, 0, 0, 0, 0, 0])) \<and>
   (list_all (\<lambda>bc. app_call (snd bc)) calls \<longrightarrow>
      list_all physical_stats_zero (stored_rows (db_run calls None)))"
proof (intro conjI impI)
  assume "w_session_type w = ''Physical Training'' \<and> w_save_clicked w"
  then show "\<exists>fd msgs. training_form w = (Some fd, msgs) \<and>
         fd_session_type fd = ''Physical Training'' \<and>
         [fd_goals fd, fd_assists fd, fd_tackles fd, fd_passes_completed fd, fd_crosses fd,
          fd_shots_on_target fd] = [0, 0, 0, 0, 0, 0] \<and>
         session_type (build_training_session fd) = ''Physical Training'' \<and>
         counting_stats (build_training_session fd) = [0, 0, 0, 0, 0, 0]"
    using training_form_physical [of w] by blast
next
  assume "list_all (\<lambda>bc. app_call (snd bc)) calls"
  then show "list_all physical_stats_zero (stored_rows (db_run calls None))"
    using psz_run [of None calls] by (simp add: stored_rows_simps)
qed

text \<open>
  A Physical Training submission with 2 in the goals widget: the form returns 0 goals, and
  the row stored through the application has all six stats 0.
\<close>

theorem physical_training_counting_stats_zero_witness:
  "w_goals physical_widgets = 2 \<and>
   (\<exists>fd msgs. training_form physical_widgets = (Some fd, msgs) \<and> fd_goals fd = 0) \<and>
   (\<exists>r. stored_rows (db_run [(Up 0, Create_table), (Up 10, Submit_form physical_widgets)] None)
          = [r] \<and>
        session_type r = ''Physical Training'' \<and> counting_stats r = [0, 0, 0, 0, 0, 0])"
proof -
  let ?calls = "[(Up 0, Create_table), (Up 10, Submit_form physical_widgets)]"
  have h1: "w_session_type physical_widgets = ''Physical Training'' \<and>
      w_save_clicked physical_widgets"
    by (simp add: physical_widgets_def)
  have h2: "list_all (\<lambda>bc. app_call (snd bc)) ?calls"
    by (simp add: app_call_def)
  have g: "w_goals physical_widgets = 2" by (simp add: physical_widgets_def)
  from physical_training_counting_stats_zero [where w = physical_widgets and calls = ?calls]
    h1 h2
  have a: "\<exists>fd msgs. training_form physical_widgets = (Some fd, msgs) \<and> fd_goals fd = 0"
    and b: "list_all physical_stats_zero (stored_rows (db_run ?calls None))"
    by auto
  from physical_widgets_row obtain r where
    r: "stored_rows (db_run ?calls None) = [r]" "session_type r = ''Physical Training''"
    by blast
  with b have "counting_stats r = [0, 0, 0, 0, 0, 0]"
    by (simp add: physical_stats_zero_def)
  with g a r show ?thesis by blast
qed

end
